theory Spec2Isabelle
  imports Complex_Main "HOL-Library.Char_ord" "HOL-Library.List_Lexorder"
begin

section \<open>Exceptions\<close>

text \<open>
  The classes of \<^verbatim>\<open>utils/exceptions.py\<close>, the builtin \<^verbatim>\<open>ValueError\<close> that
  \<^verbatim>\<open>assemble\<close> and numpy raise, and every other subclass of \<^verbatim>\<open>Exception\<close> a library
  call may raise, named by its class name. An exception value is its class together with
  \<^verbatim>\<open>str(e)\<close>. The texts of numpy's own messages are shortened (they print the shapes).
\<close>

datatype exn_class =
    PodcastGenerationError
  | ConfigurationError
  | ContentGenerationError
  | TranslationError
  | AudioGenerationError
  | AudioAssemblyError
  | ValueError
  | OtherException string

datatype exn = Exn (cls: exn_class) (msg: string)

section \<open>Configuration and the assembler object\<close>

text \<open>The fields of \<^verbatim>\<open>AudioConfig\<close> and \<^verbatim>\<open>PodcastConfig\<close> that the assembler reads.\<close>

record AudioConfig =
  cfg_output_file :: string
  cfg_music_path :: string
  cfg_vocal_volume :: "real option"
  cfg_bg_intro_volume :: "real option"
  cfg_bg_content_volume :: "real option"
  cfg_bg_outro_volume :: "real option"

record PodcastConfig =
  cfg_output_dir :: string
  cfg_audio :: AudioConfig

record AudioAssembler =
  audio_dir :: string
  output_file :: string
  music_path :: string
  sample_rate :: nat
  vocal_volume :: "real option"
  bg_intro_volume :: "real option"
  bg_content_volume :: "real option"
  bg_outro_volume :: "real option"

definition init :: "PodcastConfig \<Rightarrow> AudioAssembler" where
  \<comment> \<open>\<^verbatim>\<open>AudioAssembler.__init__\<close>: the sample rate is the literal 24000.\<close>
  "init config =
     \<lparr> audio_dir = cfg_output_dir config,
       output_file = cfg_output_file (cfg_audio config),
       music_path = cfg_music_path (cfg_audio config),
       sample_rate = 24000,
       vocal_volume = cfg_vocal_volume (cfg_audio config),
       bg_intro_volume = cfg_bg_intro_volume (cfg_audio config),
       bg_content_volume = cfg_bg_content_volume (cfg_audio config),
       bg_outro_volume = cfg_bg_outro_volume (cfg_audio config) \<rparr>"

section \<open>Arrays and the numpy operations used\<close>

text \<open>
  Samples are modelled as real numbers (exact arithmetic in place of float64). What
  \<^verbatim>\<open>sf.read\<close> returns is one-dimensional (mono) or two-dimensional (frames of channels).
\<close>

datatype ndarray = Arr1 "real list" | Arr2 "real list list"

definition py_int :: "real \<Rightarrow> int" where
  \<comment> \<open>Python's \<^verbatim>\<open>int(x)\<close> on a float: truncation towards zero.\<close>
  "py_int x = (if x < 0 then \<lceil>x\<rceil> else \<lfloor>x\<rfloor>)"

definition np_zeros :: "int \<Rightarrow> exn + real list" where
  "np_zeros n =
     (if n < 0 then Inl (Exn ValueError ''negative dimensions are not allowed'')
      else Inr (replicate (nat n) 0))"

definition np_linspace :: "real \<Rightarrow> real \<Rightarrow> int \<Rightarrow> exn + real list" where
  \<comment> \<open>\<^verbatim>\<open>np.linspace(start, stop, num)\<close> with the endpoint included.\<close>
  "np_linspace start stop num =
     (if num < 0 then Inl (Exn ValueError ''Number of samples must be non-negative.'')
      else if num = 1 then Inr [start]
      else Inr (map (\<lambda>i. start + real i * ((stop - start) / real (nat num - 1))) [0..<nat num]))"

definition imul :: "real list \<Rightarrow> real list \<Rightarrow> exn + real list" where
  \<comment> \<open>The new contents of the one-dimensional view \<^verbatim>\<open>a\<close> after \<^verbatim>\<open>a *= b\<close>: the
      shapes agree, or \<^verbatim>\<open>b\<close> has one element and is broadcast; anything else is numpy's
      ValueError, also when \<^verbatim>\<open>a\<close> has one element and \<^verbatim>\<open>b\<close> more (the output
      operand is never broadcast).\<close>
  "imul a b =
     (if length b = length a then Inr (map2 (*) a b)
      else if length b = 1 then Inr (map (\<lambda>x. x * hd b) a)
      else Inl (Exn ValueError ''operands could not be broadcast together''))"

definition slice_last :: "nat \<Rightarrow> 'a list \<Rightarrow> 'a list" where
  \<comment> \<open>\<^verbatim>\<open>a[-n:]\<close> for \<^verbatim>\<open>n >= 0\<close>; \<^verbatim>\<open>a[-0:]\<close> is all of \<^verbatim>\<open>a\<close>.\<close>
  "slice_last n a = (if n = 0 then a else drop (length a - n) a)"

definition to_mono :: "ndarray \<Rightarrow> real list" where
  \<comment> \<open>\<^verbatim>\<open>if audio.ndim > 1: audio = np.mean(audio, axis=1)\<close>\<close>
  "to_mono a =
     (case a of Arr1 xs \<Rightarrow> xs
      | Arr2 rows \<Rightarrow> map (\<lambda>r. sum_list r / real (length r)) rows)"

section \<open>The helper methods of AudioAssembler\<close>

definition create_silence :: "AudioAssembler \<Rightarrow> real \<Rightarrow> exn + real list" where
  "create_silence self duration_seconds =
     np_zeros (py_int (real (sample_rate self) * duration_seconds))"

definition fade_in :: "AudioAssembler \<Rightarrow> real list \<Rightarrow> real \<Rightarrow> exn + real list" where
  \<comment> \<open>The contents of the array \<^verbatim>\<open>_fade_in\<close> returns.\<close>
  "fade_in self audio duration_seconds =
     (let fade_length = py_int (real (sample_rate self) * duration_seconds) in
      case np_linspace 0 1 fade_length of
        Inl ex \<Rightarrow> Inl ex
      | Inr fade \<Rightarrow>
          (case imul (take (nat fade_length) audio) fade of
             Inl ex \<Rightarrow> Inl ex
           | Inr faded \<Rightarrow> Inr (faded @ drop (nat fade_length) audio)))"

definition fade_out :: "AudioAssembler \<Rightarrow> real list \<Rightarrow> real \<Rightarrow> exn + real list" where
  \<comment> \<open>The contents of the array \<^verbatim>\<open>_fade_out\<close> returns.\<close>
  "fade_out self audio duration_seconds =
     (let fade_length = py_int (real (sample_rate self) * duration_seconds) in
      case np_linspace 1 0 fade_length of
        Inl ex \<Rightarrow> Inl ex
      | Inr fade \<Rightarrow>
          (let tail = slice_last (nat fade_length) audio in
           case imul tail fade of
             Inl ex \<Rightarrow> Inl ex
           | Inr faded \<Rightarrow> Inr (take (length audio - length tail) audio @ faded)))"

definition adjust_volume :: "real list \<Rightarrow> real \<Rightarrow> real list" where
  \<comment> \<open>The contents of the array \<^verbatim>\<open>_adjust_volume\<close> returns.\<close>
  "adjust_volume audio db_change =
     (if db_change = 0 then audio
      else (let factor = 10 powr (db_change / 20) in map (\<lambda>x. x * factor) audio))"

definition adjust_if_set :: "real option \<Rightarrow> real list \<Rightarrow> real list" where
  \<comment> \<open>The guard written three times in \<^verbatim>\<open>assemble\<close>:
      \<^verbatim>\<open>if volume is not None: x = self._adjust_volume(x, volume)\<close>.\<close>
  "adjust_if_set volume x = (case volume of None \<Rightarrow> x | Some db \<Rightarrow> adjust_volume x db)"

section \<open>The helper methods on a store of arrays\<close>

text \<open>
  Whether a method returns its argument, a fresh array, or writes into an array the
  caller holds is not visible in the contents alone. Here arrays live in a store, an
  array object is its index, and creating an array appends to the store.
\<close>

type_synonym store = "real list list"

definition alloc :: "store \<Rightarrow> real list \<Rightarrow> store \<times> nat" where
  "alloc h xs = (h @ [xs], length h)"

definition adjust_volume_store :: "store \<Rightarrow> nat \<Rightarrow> real \<Rightarrow> store \<times> nat" where
  \<comment> \<open>\<^verbatim>\<open>return audio\<close> hands back the argument object; \<^verbatim>\<open>audio * factor\<close> is a
      new array.\<close>
  "adjust_volume_store h audio db_change =
     (if db_change = 0 then (h, audio)
      else (let factor = 10 powr (db_change / 20) in alloc h (map (\<lambda>x. x * factor) (h ! audio))))"

definition fade_in_store :: "AudioAssembler \<Rightarrow> store \<Rightarrow> nat \<Rightarrow> real \<Rightarrow> store \<times> (exn + nat)" where
  \<comment> \<open>\<^verbatim>\<open>audio.copy()\<close> is a new array; \<^verbatim>\<open>audio_copy[:fade_length] *= fade\<close> writes
      into that copy.\<close>
  "fade_in_store self h audio duration_seconds =
     (let fade_length = py_int (real (sample_rate self) * duration_seconds) in
      case np_linspace 0 1 fade_length of
        Inl ex \<Rightarrow> (h, Inl ex)
      | Inr fade \<Rightarrow>
          (let (h1, audio_copy) = alloc h (h ! audio) in
           case imul (take (nat fade_length) (h1 ! audio_copy)) fade of
             Inl ex \<Rightarrow> (h1, Inl ex)
           | Inr faded \<Rightarrow>
               (h1[audio_copy := faded @ drop (nat fade_length) (h1 ! audio_copy)],
                Inr audio_copy)))"

definition fade_out_store :: "AudioAssembler \<Rightarrow> store \<Rightarrow> nat \<Rightarrow> real \<Rightarrow> store \<times> (exn + nat)" where
  "fade_out_store self h audio duration_seconds =
     (let fade_length = py_int (real (sample_rate self) * duration_seconds) in
      case np_linspace 1 0 fade_length of
        Inl ex \<Rightarrow> (h, Inl ex)
      | Inr fade \<Rightarrow>
          (let (h1, audio_copy) = alloc h (h ! audio);
               tail = slice_last (nat fade_length) (h1 ! audio_copy) in
           case imul tail fade of
             Inl ex \<Rightarrow> (h1, Inl ex)
           | Inr faded \<Rightarrow>
               (h1[audio_copy :=
                     take (length (h1 ! audio_copy) - length tail) (h1 ! audio_copy) @ faded],
                Inr audio_copy)))"

section \<open>Paths and the outside world\<close>

text \<open>
  A path is its normalised text. \<^verbatim>\<open>Path.name\<close> is the part after the last slash and
  \<^verbatim>\<open>'_topic' in file.name\<close> is a substring test. Paths of one directory sort as
  their texts do (Python compares strings by code point).
\<close>

definition path_name :: "string \<Rightarrow> string" where
  "path_name p = rev (takeWhile (\<lambda>c. c \<noteq> CHR ''/'') (rev p))"

definition path_join :: "string \<Rightarrow> string \<Rightarrow> string" where
  \<comment> \<open>\<^verbatim>\<open>output_dir / self.output_file\<close>; an absolute right operand replaces the left.\<close>
  "path_join d f = (if take 1 f = ''/'' then f else d @ ''/'' @ f)"

fun contains :: "string \<Rightarrow> string \<Rightarrow> bool" where
  "contains sub [] = (sub = [])"
| "contains sub (c # cs) = (take (length sub) (c # cs) = sub \<or> contains sub cs)"

text \<open>
  The file system and the audio libraries are parameters: what the directory scan finds,
  whether a directory can be created, what decoding a file gives, what resampling gives,
  and whether writing succeeds. Each call either raises or returns.
\<close>

record env =
  glob_wav :: "string \<Rightarrow> string list"
  mkdir :: "string \<Rightarrow> exn + unit"
  librosa_load :: "string \<Rightarrow> nat \<Rightarrow> exn + real list"
  sf_read :: "string \<Rightarrow> exn + (ndarray \<times> nat)"
  librosa_resample :: "ndarray \<Rightarrow> nat \<Rightarrow> nat \<Rightarrow> exn + ndarray"
  sf_write :: "string \<Rightarrow> real list \<Rightarrow> nat \<Rightarrow> exn + unit"

datatype files_arg = Dict "(string \<times> string) list" | Paths "string list"

section \<open>assemble\<close>

definition resolve_files :: "env \<Rightarrow> AudioAssembler \<Rightarrow> files_arg option \<Rightarrow> exn + string list" where
  \<comment> \<open>Lines 38 to 45. A dict is its items in insertion order; \<^verbatim>\<open>sorted\<close> is stable.\<close>
  "resolve_files e self audio_files =
     (case audio_files of
        None \<Rightarrow>
          (let found = sort (glob_wav e (audio_dir self)) in
           if found = [] then Inl (Exn ValueError (''No WAV files found in '' @ audio_dir self))
           else Inr found)
      | Some (Dict d) \<Rightarrow> Inr (sort_key path_name (map snd d))
      | Some (Paths l) \<Rightarrow> Inr l)"

definition first_15s :: "AudioAssembler \<Rightarrow> real list \<Rightarrow> real list" where
  \<comment> \<open>Line 59, before the gain.\<close>
  "first_15s self music_audio =
     (let samples_15s = 15 * sample_rate self in
      if length music_audio \<ge> samples_15s then take samples_15s music_audio else music_audio)"

definition last_15s :: "AudioAssembler \<Rightarrow> real list \<Rightarrow> real list" where
  \<comment> \<open>Line 60, before the gain.\<close>
  "last_15s self music_audio =
     (let samples_15s = 15 * sample_rate self in
      if length music_audio \<ge> samples_15s then slice_last samples_15s music_audio else music_audio)"

definition load_segment :: "env \<Rightarrow> AudioAssembler \<Rightarrow> string \<Rightarrow> exn + real list" where
  \<comment> \<open>Lines 72 to 82 of the loop body: read, resample, fold to mono, speech gain.\<close>
  "load_segment e self file =
     (case sf_read e file of
        Inl ex \<Rightarrow> Inl ex
      | Inr (audio, sr) \<Rightarrow>
          (case (if sr \<noteq> sample_rate self
                 then librosa_resample e audio sr (sample_rate self) else Inr audio) of
             Inl ex \<Rightarrow> Inl ex
           | Inr resampled \<Rightarrow> Inr (adjust_if_set (vocal_volume self) (to_mono resampled))))"

definition apply_fades :: "AudioAssembler \<Rightarrow> nat \<Rightarrow> nat \<Rightarrow> real list \<Rightarrow> exn + real list" where
  \<comment> \<open>Lines 85 to 88; \<^verbatim>\<open>n\<close> is \<^verbatim>\<open>len(audio_files)\<close>, the fades take their default
      duration.\<close>
  "apply_fades self n i audio =
     (if i = 0 then fade_in self audio 0.5
      else if int i = int n - 1 then fade_out self audio 0.5
      else Inr audio)"

definition silence_after :: "AudioAssembler \<Rightarrow> nat \<Rightarrow> nat \<Rightarrow> string \<Rightarrow> exn + real list list" where
  \<comment> \<open>Lines 93 to 99: what is appended after the segment.\<close>
  "silence_after self n i file =
     (if int i \<noteq> int n - 1 then
        (case (if contains ''_topic'' (path_name file) then create_silence self 1.5
               else if contains ''_speaker'' (path_name file) then create_silence self 0.7
               else create_silence self 1.0) of
           Inl ex \<Rightarrow> Inl ex
         | Inr silence \<Rightarrow> Inr [silence])
      else Inr [])"

definition loop_body :: "env \<Rightarrow> AudioAssembler \<Rightarrow> nat \<Rightarrow> nat \<Rightarrow> string \<Rightarrow> exn + real list list" where
  \<comment> \<open>One iteration of the loop of lines 71 to 99: the buffers it appends.\<close>
  "loop_body e self n i file =
     (case load_segment e self file of
        Inl ex \<Rightarrow> Inl ex
      | Inr audio \<Rightarrow>
          (case apply_fades self n i audio of
             Inl ex \<Rightarrow> Inl ex
           | Inr faded \<Rightarrow>
               (case silence_after self n i file of
                  Inl ex \<Rightarrow> Inl ex
                | Inr gap \<Rightarrow> Inr (faded # gap))))"

fun segments_loop :: "env \<Rightarrow> AudioAssembler \<Rightarrow> nat \<Rightarrow> nat \<Rightarrow> string list \<Rightarrow> exn + real list list" where
  "segments_loop e self n i [] = Inr []"
| "segments_loop e self n i (file # rest) =
     (case loop_body e self n i file of
        Inl ex \<Rightarrow> Inl ex
      | Inr appended \<Rightarrow>
          (case segments_loop e self n (Suc i) rest of
             Inl ex \<Rightarrow> Inl ex
           | Inr later \<Rightarrow> Inr (appended @ later)))"

definition assemble_try :: "env \<Rightarrow> AudioAssembler \<Rightarrow> files_arg option \<Rightarrow> string option
    \<Rightarrow> exn + (string \<times> real list)" where
  \<comment> \<open>The body of the \<^verbatim>\<open>try\<close>, lines 38 to 110. The result is the returned path with
      the buffer handed to \<^verbatim>\<open>sf.write\<close>. Logging is left out, but for the division
      in the duration summary.\<close>
  "assemble_try e self audio_files output_dir =
     (case resolve_files e self audio_files of
        Inl ex \<Rightarrow> Inl ex
      | Inr files \<Rightarrow>
          (let out_dir = (case output_dir of None \<Rightarrow> audio_dir self | Some d \<Rightarrow> d) in
           case mkdir e out_dir of
             Inl ex \<Rightarrow> Inl ex
           | Inr _ \<Rightarrow>
               (let output_path = path_join out_dir (output_file self) in
                case librosa_load e (music_path self) (sample_rate self) of
                  Inl ex \<Rightarrow> Inl ex
                | Inr music_audio \<Rightarrow>
                    (let head = adjust_if_set (bg_intro_volume self) (first_15s self music_audio);
                         tail = adjust_if_set (bg_outro_volume self) (last_15s self music_audio)
                     in
                     case segments_loop e self (length files) 0 files of
                       Inl ex \<Rightarrow> Inl ex
                     | Inr segs \<Rightarrow>
                         (let podcast_segments = [head] @ segs @ [tail];
                              final_podcast = concat podcast_segments
                          in
                          case sf_write e output_path final_podcast (sample_rate self) of
                            Inl ex \<Rightarrow> Inl ex
                          | Inr _ \<Rightarrow>
                              (if sample_rate self = 0
                               then Inl (Exn (OtherException ''ZeroDivisionError'')
                                           ''division by zero'')
                               else Inr (output_path, final_podcast)))))))"

definition assemble :: "env \<Rightarrow> AudioAssembler \<Rightarrow> files_arg option \<Rightarrow> string option
    \<Rightarrow> exn + (string \<times> real list)" where
  \<comment> \<open>Lines 112 to 114: \<^verbatim>\<open>except Exception as e\<close> raises AudioAssemblyError with
      \<^verbatim>\<open>f"Podcast assembly failed: {str(e)}"\<close>.\<close>
  "assemble e self audio_files output_dir =
     (case assemble_try e self audio_files output_dir of
        Inl ex \<Rightarrow> Inl (Exn AudioAssemblyError (''Podcast assembly failed: '' @ msg ex))
      | Inr result \<Rightarrow> Inr result)"

section \<open>Concrete configurations\<close>

definition no_gain_config :: PodcastConfig where
  \<comment> \<open>Every gain unset; the other fields at the defaults of \<^verbatim>\<open>core/config.py\<close>.\<close>
  "no_gain_config =
     \<lparr> cfg_output_dir = ''output'',
       cfg_audio = \<lparr> cfg_output_file = ''podcast.wav'',
                     cfg_music_path = ''music/background.mp3'',
                     cfg_vocal_volume = None,
                     cfg_bg_intro_volume = None,
                     cfg_bg_content_volume = None,
                     cfg_bg_outro_volume = None \<rparr> \<rparr>"

definition quiet_env :: env where
  \<comment> \<open>An empty directory; every file decodes to three mono samples at 24000 Hz, the
      music to five; creating directories, resampling and writing succeed.\<close>
  "quiet_env =
     \<lparr> glob_wav = (\<lambda>_. []),
       mkdir = (\<lambda>_. Inr ()),
       librosa_load = (\<lambda>_ _. Inr [1, 1, 1, 1, 1]),
       sf_read = (\<lambda>_. Inr (Arr1 [1, 2, 3], 24000)),
       librosa_resample = (\<lambda>a _ _. Inr a),
       sf_write = (\<lambda>_ _ _. Inr ()) \<rparr>"

definition no_music_env :: env where
  \<comment> \<open>As \<^term>\<open>quiet_env\<close>, but the music asset does not exist.\<close>
  "no_music_env =
     quiet_env \<lparr> librosa_load :=
       (\<lambda>_ _. Inl (Exn (OtherException ''FileNotFoundError'') ''No such file or directory'')) \<rparr>"

definition slow_assembler :: AudioAssembler where
  \<comment> \<open>An assembler whose rate attribute was set to 4 after construction: a fade of
      0.5 seconds is two samples long.\<close>
  "slow_assembler = (init no_gain_config) \<lparr> sample_rate := 4 \<rparr>"

definition scenario_env :: "real list \<Rightarrow> real list \<Rightarrow> real list \<Rightarrow> real list \<Rightarrow> env" where
  \<comment> \<open>Three mono segments at 24000 Hz under the names of the scenario, and a music asset;
      creating directories and writing succeed.\<close>
  "scenario_env a b c music =
     \<lparr> glob_wav = (\<lambda>_. []),
       mkdir = (\<lambda>_. Inr ()),
       librosa_load = (\<lambda>_ _. Inr music),
       sf_read = (\<lambda>file.
          if file = ''a_topic.wav'' then Inr (Arr1 a, 24000)
          else if file = ''b_speaker.wav'' then Inr (Arr1 b, 24000)
          else if file = ''c.wav'' then Inr (Arr1 c, 24000)
          else Inl (Exn (OtherException ''LibsndfileError'') ''Error opening file'')),
       librosa_resample = (\<lambda>x _ _. Inr x),
       sf_write = (\<lambda>_ _ _. Inr ()) \<rparr>"

definition scenario_files :: "string list" where
  "scenario_files = [''a_topic.wav'', ''b_speaker.wav'', ''c.wav'']"

definition constant_second :: "real list" where
  "constant_second = replicate 24000 1"

definition rerun_env :: env where
  \<comment> \<open>The scenario with segments of constant samples and a music asset of 20 seconds,
      seen by a second run: the directory now holds the output of the first.\<close>
  "rerun_env =
     (scenario_env constant_second constant_second constant_second (replicate 480000 1))
       \<lparr> glob_wav := (\<lambda>_. [''output/podcast.wav'']) \<rparr>"

definition other_content_gain :: AudioAssembler where
  \<comment> \<open>The assembler of the scenario with the unused music-body gain set.\<close>
  "other_content_gain = (init no_gain_config) \<lparr> bg_content_volume := Some (- 20) \<rparr>"

section \<open>Properties\<close>

subsection \<open>The numpy operations and the fades, unfolded\<close>

lemma fade_length_init: "py_int (real (sample_rate (init cfg)) * 0.5) = int 12000"
  by (simp add: py_int_def init_def)

lemma np_linspace_nonneg:
  "np_linspace a b (int L) =
     Inr (map (\<lambda>i. a + real i * ((b - a) / real (L - 1))) [0..<L])"
  by (simp add: np_linspace_def)

lemma imul_mismatch:
  "length b \<noteq> length a \<Longrightarrow> length b \<noteq> 1 \<Longrightarrow>
     imul a b = Inl (Exn ValueError ''operands could not be broadcast together'')"
  by (simp add: imul_def)

lemma imul_same_length:
  "length b = length a \<Longrightarrow> imul a b = Inr (map2 (*) a b)"
  by (simp add: imul_def)

lemma fade_in_unfold:
  assumes "py_int (real (sample_rate self) * d) = int L"
  shows "fade_in self audio d =
     (case imul (take L audio) (map (\<lambda>i. 0 + real i * ((1 - 0) / real (L - 1))) [0..<L]) of
        Inl ex \<Rightarrow> Inl ex
      | Inr faded \<Rightarrow> Inr (faded @ drop L audio))"
  unfolding fade_in_def Let_def assms np_linspace_nonneg by (simp split: sum.splits)

lemma fade_out_unfold:
  assumes "py_int (real (sample_rate self) * d) = int L"
  shows "fade_out self audio d =
     (case imul (slice_last L audio) (map (\<lambda>i. 1 + real i * ((0 - 1) / real (L - 1))) [0..<L]) of
        Inl ex \<Rightarrow> Inl ex
      | Inr faded \<Rightarrow> Inr (take (length audio - length (slice_last L audio)) audio @ faded))"
  unfolding fade_out_def Let_def assms np_linspace_nonneg by (simp split: sum.splits)

lemma fade_in_short:
  assumes "length audio < 12000"
  shows "fade_in (init cfg) audio 0.5 = Inl (Exn ValueError ''operands could not be broadcast together'')"
proof -
  have "imul (take 12000 audio) (map (\<lambda>i. 0 + real i * ((1 - 0) / real (12000 - 1))) [0..<12000])
        = Inl (Exn ValueError ''operands could not be broadcast together'')"
    using assms by (intro imul_mismatch) simp_all
  then show ?thesis
    unfolding fade_in_unfold [OF fade_length_init] by simp
qed

lemma fade_out_short:
  assumes "length audio < 12000"
  shows "fade_out (init cfg) audio 0.5 = Inl (Exn ValueError ''operands could not be broadcast together'')"
proof -
  have "imul (slice_last 12000 audio) (map (\<lambda>i. 1 + real i * ((0 - 1) / real (12000 - 1))) [0..<12000])
        = Inl (Exn ValueError ''operands could not be broadcast together'')"
    using assms by (intro imul_mismatch) (simp_all add: slice_last_def)
  then show ?thesis
    unfolding fade_out_unfold [OF fade_length_init] by simp
qed

subsection \<open>Music excerpts\<close>

text \<open>
  C8. A music track shorter than 15 seconds (15 * 24000 samples) gives a head excerpt and
  a tail excerpt that are each the whole track; a track of at least 15 seconds gives as
  head excerpt its first 15 * 24000 samples and as tail excerpt its last 15 * 24000
  samples.
\<close>

theorem music_excerpts:
  "(length music < 15 * 24000 \<longrightarrow>
      first_15s (init cfg) music = music \<and> last_15s (init cfg) music = music) \<and>
   (15 * 24000 \<le> length music \<longrightarrow>
      first_15s (init cfg) music = take (15 * 24000) music \<and>
      last_15s (init cfg) music = drop (length music - 15 * 24000) music \<and>
      length (first_15s (init cfg) music) = 15 * 24000 \<and>
      length (last_15s (init cfg) music) = 15 * 24000)"
  by (simp add: first_15s_def last_15s_def init_def slice_last_def)

theorem music_excerpts_witness:
  "length [1, 2, 3 :: real] < 15 * 24000 \<and>
   first_15s (init no_gain_config) [1, 2, 3] = [1, 2, 3] \<and>
   last_15s (init no_gain_config) [1, 2, 3] = [1, 2, 3] \<and>
   15 * 24000 \<le> length (replicate 360002 (1::real) @ [2, 3]) \<and>
   first_15s (init no_gain_config) (replicate 360002 1 @ [2, 3]) = replicate 360000 1 \<and>
   last_15s (init no_gain_config) (replicate 360002 1 @ [2, 3]) = replicate 359998 1 @ [2, 3]"
  using music_excerpts [of "[1, 2, 3]" no_gain_config]
        music_excerpts [of "replicate 360002 1 @ [2, 3]" no_gain_config]
  by simp

subsection \<open>The loop and the failure of one iteration\<close>

lemma segments_loop_append:
  "segments_loop e self n i (xs @ ys) =
     (case segments_loop e self n i xs of
        Inl ex \<Rightarrow> Inl ex
      | Inr a \<Rightarrow>
          (case segments_loop e self n (i + length xs) ys of
             Inl ex \<Rightarrow> Inl ex
           | Inr b \<Rightarrow> Inr (a @ b)))"
  by (induction xs arbitrary: i) (auto split: sum.splits)

lemma segments_loop_all_ok:
  "(\<forall>j<length xs. \<exists>r. loop_body e self n (i + j) (xs ! j) = Inr r) \<Longrightarrow>
     \<exists>a. segments_loop e self n i xs = Inr a"
proof (induction xs arbitrary: i)
  case Nil
  then show ?case by simp
next
  case (Cons x xs)
  from Cons.prems have "\<exists>r. loop_body e self n (i + 0) ((x # xs) ! 0) = Inr r"
    by blast
  then obtain r where r: "loop_body e self n i x = Inr r" by auto
  have "\<forall>j<length xs. \<exists>r. loop_body e self n (Suc i + j) (xs ! j) = Inr r"
  proof (intro allI impI)
    fix j assume "j < length xs"
    then have "Suc j < length (x # xs)" by simp
    with Cons.prems have "\<exists>r. loop_body e self n (i + Suc j) ((x # xs) ! Suc j) = Inr r"
      by blast
    then show "\<exists>r. loop_body e self n (Suc i + j) (xs ! j) = Inr r" by simp
  qed
  from Cons.IH [OF this] obtain a where "segments_loop e self n (Suc i) xs = Inr a" ..
  with r show ?case by simp
qed

lemma segments_loop_first_failure:
  assumes "\<forall>j<length xs. \<exists>r. loop_body e self n (i + j) (xs ! j) = Inr r"
    and "loop_body e self n (i + length xs) f = Inl c"
  shows "segments_loop e self n i (xs @ f # ys) = Inl c"
proof -
  from segments_loop_all_ok [OF assms(1)] obtain a where "segments_loop e self n i xs = Inr a" ..
  with assms(2) show ?thesis by (simp add: segments_loop_append)
qed

lemma segments_loop_some_failure:
  assumes "loop_body e self n (i + length xs) f = Inl c"
  shows "\<exists>c'. segments_loop e self n i (xs @ f # ys) = Inl c'"
  using assms by (simp add: segments_loop_append split: sum.splits)

lemma assemble_try_loop_failure:
  assumes "resolve_files e self audio_files = Inr files"
    and "mkdir e (case output_dir of None \<Rightarrow> audio_dir self | Some d \<Rightarrow> d) = Inr u"
    and "librosa_load e (music_path self) (sample_rate self) = Inr music_audio"
    and "segments_loop e self (length files) 0 files = Inl c"
  shows "assemble_try e self audio_files output_dir = Inl c"
  using assms by (simp add: assemble_try_def)

lemma assemble_Inl_iff:
  "assemble e self audio_files output_dir = Inl ex \<longleftrightarrow>
     (\<exists>c. assemble_try e self audio_files output_dir = Inl c \<and>
          ex = Exn AudioAssemblyError (''Podcast assembly failed: '' @ msg c))"
  by (auto simp: assemble_def split: sum.splits)

lemma assemble_try_fails_if_loop_fails:
  assumes "resolve_files e self audio_files = Inr files"
    and "segments_loop e self (length files) 0 files = Inl c"
  shows "\<exists>c'. assemble_try e self audio_files output_dir = Inl c'"
  using assms by (simp add: assemble_try_def Let_def split: sum.splits)

subsection \<open>Clips shorter than the fade window\<close>

lemma apply_fades_first: "apply_fades self n 0 audio = fade_in self audio 0.5"
  by (simp add: apply_fades_def)

lemma apply_fades_last:
  "0 < i \<Longrightarrow> Suc i = n \<Longrightarrow> apply_fades self n i audio = fade_out self audio 0.5"
  by (auto simp: apply_fades_def)

lemma apply_fades_middle:
  "0 < i \<Longrightarrow> Suc i \<noteq> n \<Longrightarrow> apply_fades self n i audio = Inr audio"
  by (auto simp: apply_fades_def)

lemma loop_body_short_first:
  assumes "load_segment e (init cfg) f = Inr audio" and "length audio < 12000"
  shows "\<exists>c. loop_body e (init cfg) n 0 f = Inl c"
proof -
  have "apply_fades (init cfg) n 0 audio =
          Inl (Exn ValueError ''operands could not be broadcast together'')"
    unfolding apply_fades_first using assms(2) by (rule fade_in_short)
  with assms(1) show ?thesis by (simp add: loop_body_def)
qed

lemma loop_body_short_last:
  assumes "load_segment e (init cfg) f = Inr audio" and "length audio < 12000"
    and "Suc i = n"
  shows "\<exists>c. loop_body e (init cfg) n i f = Inl c"
proof (cases "i = 0")
  case True
  with loop_body_short_first [OF assms(1,2)] show ?thesis by simp
next
  case False
  then have "apply_fades (init cfg) n i audio = fade_out (init cfg) audio 0.5"
    using assms(3) by (intro apply_fades_last) simp_all
  also have "\<dots> = Inl (Exn ValueError ''operands could not be broadcast together'')"
    using assms(2) by (rule fade_out_short)
  finally show ?thesis
    using assms(1) by (simp add: loop_body_def)
qed

text \<open>
  C10. A buffer shorter than 0.5 * 24000 = 12000 samples makes the fade-in and the
  fade-out raise numpy's shape-mismatch ValueError instead of fading what is there, and
  an assemble call whose first or last segment is that short (after reading, resampling,
  folding to mono and the speech gain) fails with AudioAssemblyError.
\<close>

theorem short_clip_fade_raises:
  assumes "length audio < 12000"
  shows "fade_in (init cfg) audio 0.5 =
           Inl (Exn ValueError ''operands could not be broadcast together'') \<and>
         fade_out (init cfg) audio 0.5 =
           Inl (Exn ValueError ''operands could not be broadcast together'') \<and>
         (\<forall>e audio_files files output_dir.
            resolve_files e (init cfg) audio_files = Inr files \<and> files \<noteq> [] \<and>
            (load_segment e (init cfg) (hd files) = Inr audio \<or>
             load_segment e (init cfg) (last files) = Inr audio)
            \<longrightarrow> (\<exists>m. assemble e (init cfg) audio_files output_dir =
                        Inl (Exn AudioAssemblyError m)))"
proof (intro conjI allI impI)
  show "fade_in (init cfg) audio 0.5 =
          Inl (Exn ValueError ''operands could not be broadcast together'')"
    using assms by (rule fade_in_short)
  show "fade_out (init cfg) audio 0.5 =
          Inl (Exn ValueError ''operands could not be broadcast together'')"
    using assms by (rule fade_out_short)
next
  fix e audio_files files output_dir
  assume h: "resolve_files e (init cfg) audio_files = Inr files \<and> files \<noteq> [] \<and>
            (load_segment e (init cfg) (hd files) = Inr audio \<or>
             load_segment e (init cfg) (last files) = Inr audio)"
  then have res: "resolve_files e (init cfg) audio_files = Inr files" and ne: "files \<noteq> []"
    by simp_all
  have "\<exists>c. segments_loop e (init cfg) (length files) 0 files = Inl c"
  proof -
    from h consider "load_segment e (init cfg) (hd files) = Inr audio"
      | "load_segment e (init cfg) (last files) = Inr audio" by blast
    then show ?thesis
    proof cases
      case 1
      from ne obtain f rest where fr: "files = f # rest" by (cases files) auto
      with 1 have "load_segment e (init cfg) f = Inr audio" by simp
      from loop_body_short_first [OF this assms, of "length files"]
      show ?thesis by (auto simp: fr)
    next
      case 2
      from ne obtain xs l where xl: "files = xs @ [l]" by (cases files rule: rev_cases) auto
      with 2 have "load_segment e (init cfg) l = Inr audio" by simp
      from loop_body_short_last [OF this assms, of "length xs" "length files"] xl
      obtain c where "loop_body e (init cfg) (length files) (0 + length xs) l = Inl c" by auto
      from segments_loop_some_failure [OF this, of "[]"] show ?thesis by (simp add: xl)
    qed
  qed
  then obtain c where "segments_loop e (init cfg) (length files) 0 files = Inl c" ..
  from assemble_try_fails_if_loop_fails [OF res this]
  obtain c' where "assemble_try e (init cfg) audio_files output_dir = Inl c'" ..
  then show "\<exists>m. assemble e (init cfg) audio_files output_dir = Inl (Exn AudioAssemblyError m)"
    by (simp add: assemble_def)
qed

theorem short_clip_fade_raises_witness:
  "length [1, 2, 3 :: real] < 12000 \<and>
   fade_in (init no_gain_config) [1, 2, 3] 0.5 =
     Inl (Exn ValueError ''operands could not be broadcast together'') \<and>
   fade_out (init no_gain_config) [1, 2, 3] 0.5 =
     Inl (Exn ValueError ''operands could not be broadcast together'') \<and>
   resolve_files quiet_env (init no_gain_config) (Some (Paths [''a.wav'', ''b.wav''])) =
     Inr [''a.wav'', ''b.wav''] \<and>
   load_segment quiet_env (init no_gain_config) ''a.wav'' = Inr [1, 2, 3] \<and>
   (\<exists>m. assemble quiet_env (init no_gain_config) (Some (Paths [''a.wav'', ''b.wav''])) None =
          Inl (Exn AudioAssemblyError m))"
proof -
  have len: "length [1, 2, 3 :: real] < 12000" by simp
  have res: "resolve_files quiet_env (init no_gain_config) (Some (Paths [''a.wav'', ''b.wav''])) =
     Inr [''a.wav'', ''b.wav'']"
    by (simp add: resolve_files_def)
  have seg: "load_segment quiet_env (init no_gain_config) ''a.wav'' = Inr [1, 2, 3]"
    by (simp add: load_segment_def quiet_env_def init_def no_gain_config_def
        adjust_if_set_def to_mono_def)
  from short_clip_fade_raises [OF len, of no_gain_config] res seg
  show ?thesis by simp
qed

subsection \<open>Errors reaching the caller\<close>

lemma loop_body_read_failure:
  "sf_read e f = Inl c \<Longrightarrow> loop_body e self n i f = Inl c"
  by (simp add: loop_body_def load_segment_def)

lemma loop_body_resample_failure:
  "sf_read e f = Inr (a, sr) \<Longrightarrow> sr \<noteq> sample_rate self \<Longrightarrow>
     librosa_resample e a sr (sample_rate self) = Inl c \<Longrightarrow> loop_body e self n i f = Inl c"
  by (simp add: loop_body_def load_segment_def)

text \<open>
  C6. Whatever fails inside an assemble call reaches the caller as one AudioAssemblyError
  whose message is "Podcast assembly failed: " followed by the text of the original
  exception, and no exception of another class leaves assemble. This holds for a
  failure to create the output directory, to load the music, to read or to resample a
  segment (the first segment that fails), and to write the result.
\<close>

theorem assemble_raises_only_AudioAssemblyError:
  "(\<forall>ex. assemble e self audio_files output_dir = Inl ex \<longrightarrow>
      cls ex = AudioAssemblyError \<and>
      (\<exists>c. assemble_try e self audio_files output_dir = Inl c \<and>
           msg ex = ''Podcast assembly failed: '' @ msg c)) \<and>
   (\<forall>c. assemble_try e self audio_files output_dir = Inl c \<longrightarrow>
      assemble e self audio_files output_dir =
        Inl (Exn AudioAssemblyError (''Podcast assembly failed: '' @ msg c))) \<and>
   (\<forall>files c.
      resolve_files e self audio_files = Inr files \<and>
      mkdir e (case output_dir of None \<Rightarrow> audio_dir self | Some d \<Rightarrow> d) = Inl c \<longrightarrow>
      assemble e self audio_files output_dir =
        Inl (Exn AudioAssemblyError (''Podcast assembly failed: '' @ msg c))) \<and>
   (\<forall>files u c.
      resolve_files e self audio_files = Inr files \<and>
      mkdir e (case output_dir of None \<Rightarrow> audio_dir self | Some d \<Rightarrow> d) = Inr u \<and>
      librosa_load e (music_path self) (sample_rate self) = Inl c \<longrightarrow>
      assemble e self audio_files output_dir =
        Inl (Exn AudioAssemblyError (''Podcast assembly failed: '' @ msg c))) \<and>
   (\<forall>files u music_audio xs f ys c.
      resolve_files e self audio_files = Inr files \<and>
      mkdir e (case output_dir of None \<Rightarrow> audio_dir self | Some d \<Rightarrow> d) = Inr u \<and>
      librosa_load e (music_path self) (sample_rate self) = Inr music_audio \<and>
      files = xs @ f # ys \<and>
      (\<forall>j<length xs. \<exists>r. loop_body e self (length files) j (xs ! j) = Inr r) \<and>
      (sf_read e f = Inl c \<or>
       (\<exists>a sr. sf_read e f = Inr (a, sr) \<and> sr \<noteq> sample_rate self \<and>
          librosa_resample e a sr (sample_rate self) = Inl c)) \<longrightarrow>
      assemble e self audio_files output_dir =
        Inl (Exn AudioAssemblyError (''Podcast assembly failed: '' @ msg c))) \<and>
   (\<forall>files u music_audio segs c.
      resolve_files e self audio_files = Inr files \<and>
      mkdir e (case output_dir of None \<Rightarrow> audio_dir self | Some d \<Rightarrow> d) = Inr u \<and>
      librosa_load e (music_path self) (sample_rate self) = Inr music_audio \<and>
      segments_loop e self (length files) 0 files = Inr segs \<and>
      sf_write e
        (path_join (case output_dir of None \<Rightarrow> audio_dir self | Some d \<Rightarrow> d) (output_file self))
        (concat ([adjust_if_set (bg_intro_volume self) (first_15s self music_audio)] @ segs @
                 [adjust_if_set (bg_outro_volume self) (last_15s self music_audio)]))
        (sample_rate self) = Inl c \<longrightarrow>
      assemble e self audio_files output_dir =
        Inl (Exn AudioAssemblyError (''Podcast assembly failed: '' @ msg c)))"
proof (intro conjI allI impI)
  fix ex assume "assemble e self audio_files output_dir = Inl ex"
  then obtain c where c: "assemble_try e self audio_files output_dir = Inl c"
    and ex: "ex = Exn AudioAssemblyError (''Podcast assembly failed: '' @ msg c)"
    unfolding assemble_Inl_iff by blast
  from ex show "cls ex = AudioAssemblyError" by simp
  from c ex show "\<exists>c. assemble_try e self audio_files output_dir = Inl c \<and>
           msg ex = ''Podcast assembly failed: '' @ msg c" by auto
next
  fix c assume "assemble_try e self audio_files output_dir = Inl c"
  then show "assemble e self audio_files output_dir =
        Inl (Exn AudioAssemblyError (''Podcast assembly failed: '' @ msg c))"
    by (simp add: assemble_def)
next
  fix files c
  assume "resolve_files e self audio_files = Inr files \<and>
      mkdir e (case output_dir of None \<Rightarrow> audio_dir self | Some d \<Rightarrow> d) = Inl c"
  then have "assemble_try e self audio_files output_dir = Inl c"
    by (simp add: assemble_try_def)
  then show "assemble e self audio_files output_dir =
        Inl (Exn AudioAssemblyError (''Podcast assembly failed: '' @ msg c))"
    by (simp add: assemble_def)
next
  fix files u c
  assume "resolve_files e self audio_files = Inr files \<and>
      mkdir e (case output_dir of None \<Rightarrow> audio_dir self | Some d \<Rightarrow> d) = Inr u \<and>
      librosa_load e (music_path self) (sample_rate self) = Inl c"
  then have "assemble_try e self audio_files output_dir = Inl c"
    by (simp add: assemble_try_def)
  then show "assemble e self audio_files output_dir =
        Inl (Exn AudioAssemblyError (''Podcast assembly failed: '' @ msg c))"
    by (simp add: assemble_def)
next
  fix files u music_audio xs f ys c
  assume h: "resolve_files e self audio_files = Inr files \<and>
      mkdir e (case output_dir of None \<Rightarrow> audio_dir self | Some d \<Rightarrow> d) = Inr u \<and>
      librosa_load e (music_path self) (sample_rate self) = Inr music_audio \<and>
      files = xs @ f # ys \<and>
      (\<forall>j<length xs. \<exists>r. loop_body e self (length files) j (xs ! j) = Inr r) \<and>
      (sf_read e f = Inl c \<or>
       (\<exists>a sr. sf_read e f = Inr (a, sr) \<and> sr \<noteq> sample_rate self \<and>
          librosa_resample e a sr (sample_rate self) = Inl c))"
  then have "sf_read e f = Inl c \<or>
       (\<exists>a sr. sf_read e f = Inr (a, sr) \<and> sr \<noteq> sample_rate self \<and>
          librosa_resample e a sr (sample_rate self) = Inl c)"
    by (elim conjE)
  then have "loop_body e self (length files) (0 + length xs) f = Inl c"
  proof (elim disjE exE conjE)
    assume "sf_read e f = Inl c"
    then show ?thesis by (rule loop_body_read_failure)
  next
    fix a sr
    assume "sf_read e f = Inr (a, sr)" "sr \<noteq> sample_rate self"
      "librosa_resample e a sr (sample_rate self) = Inl c"
    then show ?thesis by (rule loop_body_resample_failure)
  qed
  moreover from h have "\<forall>j<length xs. \<exists>r. loop_body e self (length files) j (xs ! j) = Inr r"
    by (elim conjE)
  then have "\<forall>j<length xs. \<exists>r. loop_body e self (length files) (0 + j) (xs ! j) = Inr r"
    by simp
  ultimately have "segments_loop e self (length files) 0 (xs @ f # ys) = Inl c"
    by (rule segments_loop_first_failure [rotated])
  with h have "segments_loop e self (length files) 0 files = Inl c" by simp
  with h have "assemble_try e self audio_files output_dir = Inl c"
    by (intro assemble_try_loop_failure [where files = files and u = u and music_audio = music_audio]) simp_all
  then show "assemble e self audio_files output_dir =
        Inl (Exn AudioAssemblyError (''Podcast assembly failed: '' @ msg c))"
    by (simp add: assemble_def)
next
  fix files u music_audio segs c
  assume "resolve_files e self audio_files = Inr files \<and>
      mkdir e (case output_dir of None \<Rightarrow> audio_dir self | Some d \<Rightarrow> d) = Inr u \<and>
      librosa_load e (music_path self) (sample_rate self) = Inr music_audio \<and>
      segments_loop e self (length files) 0 files = Inr segs \<and>
      sf_write e
        (path_join (case output_dir of None \<Rightarrow> audio_dir self | Some d \<Rightarrow> d) (output_file self))
        (concat ([adjust_if_set (bg_intro_volume self) (first_15s self music_audio)] @ segs @
                 [adjust_if_set (bg_outro_volume self) (last_15s self music_audio)]))
        (sample_rate self) = Inl c"
  then have "assemble_try e self audio_files output_dir = Inl c"
    by (simp add: assemble_try_def)
  then show "assemble e self audio_files output_dir =
        Inl (Exn AudioAssemblyError (''Podcast assembly failed: '' @ msg c))"
    by (simp add: assemble_def)
qed

theorem assemble_raises_only_AudioAssemblyError_witness:
  "resolve_files no_music_env (init no_gain_config) (Some (Paths [''a.wav''])) = Inr [''a.wav''] \<and>
   mkdir no_music_env (case None of None \<Rightarrow> audio_dir (init no_gain_config) | Some d \<Rightarrow> d) = Inr () \<and>
   librosa_load no_music_env (music_path (init no_gain_config)) (sample_rate (init no_gain_config))
     = Inl (Exn (OtherException ''FileNotFoundError'') ''No such file or directory'') \<and>
   assemble no_music_env (init no_gain_config) (Some (Paths [''a.wav''])) None =
     Inl (Exn AudioAssemblyError ''Podcast assembly failed: No such file or directory'') \<and>
   cls (Exn AudioAssemblyError ''Podcast assembly failed: No such file or directory'') =
     AudioAssemblyError"
proof -
  have res: "resolve_files no_music_env (init no_gain_config) (Some (Paths [''a.wav''])) = Inr [''a.wav'']"
    by (simp add: resolve_files_def)
  have mk: "mkdir no_music_env (case None of None \<Rightarrow> audio_dir (init no_gain_config) | Some d \<Rightarrow> d) = Inr ()"
    by (simp add: no_music_env_def quiet_env_def)
  have ld: "librosa_load no_music_env (music_path (init no_gain_config)) (sample_rate (init no_gain_config))
     = Inl (Exn (OtherException ''FileNotFoundError'') ''No such file or directory'')"
    by (simp add: no_music_env_def quiet_env_def)
  note inst = assemble_raises_only_AudioAssemblyError
    [of no_music_env "init no_gain_config" "Some (Paths [''a.wav''])" None]
  from inst [THEN conjunct2, THEN conjunct2, THEN conjunct2, THEN conjunct1, rule_format,
      OF conjI [OF res conjI [OF mk ld]]]
  have a: "assemble no_music_env (init no_gain_config) (Some (Paths [''a.wav''])) None =
     Inl (Exn AudioAssemblyError (''Podcast assembly failed: '' @
        msg (Exn (OtherException ''FileNotFoundError'') ''No such file or directory'')))"
    .
  from a res mk ld show ?thesis by simp
qed

text \<open>
  C3, as the code has it. With no explicit segments and a directory scan that finds no
  WAV file, the ValueError raised for it is caught by the handler of assemble, and the
  caller receives an AudioAssemblyError with the message "Podcast assembly failed: No WAV
  files found in " followed by the audio directory. The module of exceptions has no
  class for a missing input.
\<close>

theorem empty_scan_raises_AudioAssemblyError:
  "glob_wav e (audio_dir self) = [] \<Longrightarrow>
     assemble e self None output_dir =
       Inl (Exn AudioAssemblyError
              (''Podcast assembly failed: No WAV files found in '' @ audio_dir self))"
  by (simp add: assemble_def assemble_try_def resolve_files_def)

theorem empty_scan_raises_AudioAssemblyError_witness:
  "glob_wav quiet_env (audio_dir (init no_gain_config)) = [] \<and>
   assemble quiet_env (init no_gain_config) None None =
     Inl (Exn AudioAssemblyError ''Podcast assembly failed: No WAV files found in output'')"
proof -
  have g: "glob_wav quiet_env (audio_dir (init no_gain_config)) = []"
    by (simp add: quiet_env_def)
  from empty_scan_raises_AudioAssemblyError [OF g, of None] g
  show ?thesis by (simp add: init_def no_gain_config_def)
qed

text \<open>
  C3 as stated fails on an empty scan: the exception the caller receives has the class
  AudioAssemblyError, which is neither the ValueError raised inside nor an InputError.
\<close>

theorem empty_scan_error_class:
  "cls (projl (assemble quiet_env (init no_gain_config) None None)) = AudioAssemblyError \<and>
   cls (projl (assemble quiet_env (init no_gain_config) None None)) \<noteq> ValueError \<and>
   cls (projl (assemble quiet_env (init no_gain_config) None None)) \<noteq> OtherException ''InputError''"
  by (simp add: assemble_def assemble_try_def resolve_files_def quiet_env_def)

subsection \<open>The methods on the store\<close>

lemma alloc_update:
  "(h @ [x])[length h := y] = h @ [y]"
  by (simp add: list_update_append)

lemma fade_in_store_unfold:
  "fade_in_store self h audio d =
     (case np_linspace 0 1 (py_int (real (sample_rate self) * d)) of
        Inl ex \<Rightarrow> (h, Inl ex)
      | Inr fade \<Rightarrow>
          (case imul (take (nat (py_int (real (sample_rate self) * d))) (h ! audio)) fade of
             Inl ex \<Rightarrow> (h @ [h ! audio], Inl ex)
           | Inr faded \<Rightarrow>
               (h @ [faded @ drop (nat (py_int (real (sample_rate self) * d))) (h ! audio)],
                Inr (length h))))"
  by (simp add: fade_in_store_def alloc_def Let_def alloc_update split: sum.splits)

lemma fade_out_store_unfold:
  "fade_out_store self h audio d =
     (case np_linspace 1 0 (py_int (real (sample_rate self) * d)) of
        Inl ex \<Rightarrow> (h, Inl ex)
      | Inr fade \<Rightarrow>
          (case imul (slice_last (nat (py_int (real (sample_rate self) * d))) (h ! audio)) fade of
             Inl ex \<Rightarrow> (h @ [h ! audio], Inl ex)
           | Inr faded \<Rightarrow>
               (h @ [take (length (h ! audio) -
                          length (slice_last (nat (py_int (real (sample_rate self) * d))) (h ! audio)))
                       (h ! audio) @ faded],
                Inr (length h))))"
  by (simp add: fade_out_store_def alloc_def Let_def alloc_update split: sum.splits)

lemma fade_in_store_contents:
  "snd (fade_in_store self h audio d) = map_sum id (\<lambda>_. length h) (fade_in self (h ! audio) d) \<and>
   (\<forall>ys. fade_in self (h ! audio) d = Inr ys \<longrightarrow>
      fade_in_store self h audio d = (h @ [ys], Inr (length h)))"
  by (simp add: fade_in_store_unfold fade_in_def Let_def split: sum.splits)

lemma fade_out_store_contents:
  "snd (fade_out_store self h audio d) = map_sum id (\<lambda>_. length h) (fade_out self (h ! audio) d) \<and>
   (\<forall>ys. fade_out self (h ! audio) d = Inr ys \<longrightarrow>
      fade_out_store self h audio d = (h @ [ys], Inr (length h)))"
  by (simp add: fade_out_store_unfold fade_out_def Let_def split: sum.splits)

lemma adjust_volume_store_contents:
  "(case adjust_volume_store h audio db of (h', r) \<Rightarrow> h' ! r) = adjust_volume (h ! audio) db"
  by (simp add: adjust_volume_store_def adjust_volume_def alloc_def Let_def)

text \<open>
  C7. The fade-in and the fade-out work on a copy: after either returns (or raises),
  every array the caller held, the argument among them, has the samples it had before
  the call, and the array returned is a new one, not the argument.
\<close>

theorem fades_never_mutate_argument:
  assumes "audio < length h"
  shows "take (length h) (fst (fade_in_store self h audio d)) = h \<and>
         fst (fade_in_store self h audio d) ! audio = h ! audio \<and>
         (\<forall>r. snd (fade_in_store self h audio d) = Inr r \<longrightarrow> r \<noteq> audio) \<and>
         take (length h) (fst (fade_out_store self h audio d)) = h \<and>
         fst (fade_out_store self h audio d) ! audio = h ! audio \<and>
         (\<forall>r. snd (fade_out_store self h audio d) = Inr r \<longrightarrow> r \<noteq> audio)"
proof -
  have a: "take (length h) (fst (fade_in_store self h audio d)) = h"
    by (simp add: fade_in_store_unfold split: sum.splits)
  have b: "take (length h) (fst (fade_out_store self h audio d)) = h"
    by (simp add: fade_out_store_unfold split: sum.splits)
  have c: "fst (fade_in_store self h audio d) ! audio = h ! audio"
    using assms by (simp add: fade_in_store_unfold nth_append split: sum.splits)
  have d: "fst (fade_out_store self h audio d) ! audio = h ! audio"
    using assms by (simp add: fade_out_store_unfold nth_append split: sum.splits)
  have e: "\<forall>r. snd (fade_in_store self h audio d) = Inr r \<longrightarrow> r \<noteq> audio"
    using assms by (auto simp: fade_in_store_unfold split: sum.splits)
  have f: "\<forall>r. snd (fade_out_store self h audio d) = Inr r \<longrightarrow> r \<noteq> audio"
    using assms by (auto simp: fade_out_store_unfold split: sum.splits)
  from a b c d e f show ?thesis by blast
qed

lemma upt_0_2: "[0..<2] = [0, Suc 0]"
  by (simp add: numeral_2_eq_2)

theorem fades_never_mutate_argument_witness:
  "(0::nat) < length [[1, 2, 3 :: real]] \<and>
   fade_in_store slow_assembler [[1, 2, 3]] 0 0.5 = ([[1, 2, 3], [0, 2, 3]], Inr 1) \<and>
   fade_out_store slow_assembler [[1, 2, 3]] 0 0.5 = ([[1, 2, 3], [1, 2, 0]], Inr 1) \<and>
   fst (fade_in_store slow_assembler [[1, 2, 3]] 0 0.5) ! 0 = [1, 2, 3] \<and>
   fst (fade_out_store slow_assembler [[1, 2, 3]] 0 0.5) ! 0 = [1, 2, 3]"
proof -
  have len: "(0::nat) < length [[1, 2, 3 :: real]]" by simp
  have i: "fade_in_store slow_assembler [[1, 2, 3]] 0 0.5 = ([[1, 2, 3], [0, 2, 3]], Inr 1)"
    by (simp add: fade_in_store_unfold slow_assembler_def py_int_def np_linspace_def imul_def
        upt_0_2)
  have o: "fade_out_store slow_assembler [[1, 2, 3]] 0 0.5 = ([[1, 2, 3], [1, 2, 0]], Inr 1)"
    by (simp add: fade_out_store_unfold slow_assembler_def py_int_def np_linspace_def imul_def
        slice_last_def upt_0_2)
  from fades_never_mutate_argument [OF len, of slow_assembler "0.5"] len i o
  show ?thesis by simp
qed

subsection \<open>Gain\<close>

text \<open>
  C4, as the code has it. A gain of db decibels other than 0 multiplies every sample by
  10 to the power db/20, in a new array. A gain of 0 dB returns the argument array itself
  and multiplies nothing; its samples are those that the factor 10^0 = 1 would give. A
  gain setting of None skips the call and leaves the buffer as it is.
\<close>

theorem gain_is_db_to_linear:
  "(db \<noteq> 0 \<longrightarrow>
      adjust_volume audio db = map (\<lambda>x. x * 10 powr (db / 20)) audio \<and>
      adjust_volume_store h a db = (h @ [map (\<lambda>x. x * 10 powr (db / 20)) (h ! a)], length h)) \<and>
   adjust_volume audio 0 = audio \<and>
   adjust_volume audio 0 = map (\<lambda>x. x * 10 powr (0 / 20)) audio \<and>
   adjust_volume_store h a 0 = (h, a) \<and>
   adjust_if_set None audio = audio \<and>
   adjust_if_set (Some 0) audio = adjust_if_set None audio \<and>
   adjust_if_set (Some db) audio = adjust_volume audio db"
  by (simp add: adjust_volume_def adjust_volume_store_def adjust_if_set_def alloc_def)

theorem gain_is_db_to_linear_witness:
  "(20::real) \<noteq> 0 \<and>
   adjust_volume [1, 2] 20 = [10, 20] \<and>
   adjust_volume_store [[1, 2]] 0 20 = ([[1, 2], [10, 20]], 1) \<and>
   adjust_volume [1, 2] 0 = [1, 2] \<and>
   adjust_volume_store [[1, 2]] 0 0 = ([[1, 2]], 0)"
  using gain_is_db_to_linear [of 20 "[1, 2]" "[[1, 2]]" 0]
  by simp

text \<open>
  C4 as stated fails at 0 dB: the multiply path creates the product as a new array, but
  the call returns the argument and leaves the store as it was. Nothing was multiplied.
\<close>

theorem zero_db_skips_multiply:
  "adjust_volume_store [[1, 2]] 0 0 = ([[1, 2]], 0) \<and>
   adjust_volume_store [[1, 2]] 0 0 \<noteq>
     alloc [[1, 2]] [1 * 10 powr (0 / 20), 2 * 10 powr (0 / 20)]"
  by (simp add: adjust_volume_store_def alloc_def)

subsection \<open>Silence and fades at the fixed rate\<close>

lemma create_silence_init:
  "create_silence (init cfg) 1.5 = Inr (replicate 36000 0)"
  "create_silence (init cfg) 0.7 = Inr (replicate 16800 0)"
  "create_silence (init cfg) 1.0 = Inr (replicate 24000 0)"
  by (simp_all add: create_silence_def init_def py_int_def np_zeros_def)

lemma fade_in_long:
  assumes "12000 \<le> length audio"
  shows "fade_in (init cfg) audio 0.5 =
           Inr (map2 (*) (take 12000 audio) (map (\<lambda>i. real i / 11999) [0..<12000]) @
                drop 12000 audio)"
proof -
  have "imul (take 12000 audio) (map (\<lambda>i. 0 + real i * ((1 - 0) / real (12000 - 1))) [0..<12000])
        = Inr (map2 (*) (take 12000 audio)
                 (map (\<lambda>i. 0 + real i * ((1 - 0) / real (12000 - 1))) [0..<12000]))"
    using assms by (intro imul_same_length) simp
  then show ?thesis
    unfolding fade_in_unfold [OF fade_length_init] by simp
qed

lemma fade_out_long:
  assumes "12000 \<le> length audio"
  shows "fade_out (init cfg) audio 0.5 =
           Inr (take (length audio - 12000) audio @
                map2 (*) (drop (length audio - 12000) audio)
                  (map (\<lambda>i. 1 - real i / 11999) [0..<12000]))"
proof -
  have sl: "slice_last 12000 audio = drop (length audio - 12000) audio"
    by (simp add: slice_last_def)
  have len: "length (drop (length audio - 12000) audio) = 12000"
    using assms by simp
  have "imul (slice_last 12000 audio)
          (map (\<lambda>i. 1 + real i * ((0 - 1) / real (12000 - 1))) [0..<12000])
        = Inr (map2 (*) (slice_last 12000 audio)
                 (map (\<lambda>i. 1 + real i * ((0 - 1) / real (12000 - 1))) [0..<12000]))"
    unfolding sl using len by (intro imul_same_length) simp
  then show ?thesis
    unfolding fade_out_unfold [OF fade_length_init] sl len using assms by simp
qed

lemma fade_in_Inr_long:
  assumes "fade_in (init cfg) audio 0.5 = Inr out"
  shows "12000 \<le> length audio"
proof (rule ccontr)
  assume "\<not> 12000 \<le> length audio"
  then have "length audio < 12000" by simp
  from fade_in_short [OF this, of cfg] assms show False by simp
qed

lemma fade_out_Inr_long:
  assumes "fade_out (init cfg) audio 0.5 = Inr out"
  shows "12000 \<le> length audio"
proof (rule ccontr)
  assume "\<not> 12000 \<le> length audio"
  then have "length audio < 12000" by simp
  from fade_out_short [OF this, of cfg] assms show False by simp
qed

lemma faded_in_samples:
  assumes "12000 \<le> length audio"
  defines "out \<equiv> map2 (*) (take 12000 audio) (map (\<lambda>i. real i / 11999) [0..<12000]) @
                drop 12000 audio"
  shows "length out = length audio"
    and "\<forall>k<12000. out ! k = audio ! k * (real k / 11999)"
    and "\<forall>k. 12000 \<le> k \<and> k < length audio \<longrightarrow> out ! k = audio ! k"
proof -
  have l: "length (map2 (*) (take 12000 audio) (map (\<lambda>i. real i / 11999) [0..<12000])) = 12000"
    using assms(1) by simp
  show "length out = length audio"
    unfolding out_def using assms(1) by simp
  show "\<forall>k<12000. out ! k = audio ! k * (real k / 11999)"
    unfolding out_def using assms(1) l by (simp add: nth_append del: upt_rec_numeral)
  show "\<forall>k. 12000 \<le> k \<and> k < length audio \<longrightarrow> out ! k = audio ! k"
    unfolding out_def using assms(1) l by (auto simp add: nth_append simp del: upt_rec_numeral)
qed

lemma faded_out_samples:
  assumes "12000 \<le> length audio"
  defines "out \<equiv> take (length audio - 12000) audio @
                map2 (*) (drop (length audio - 12000) audio)
                  (map (\<lambda>i. 1 - real i / 11999) [0..<12000])"
  shows "length out = length audio"
    and "\<forall>k<length audio - 12000. out ! k = audio ! k"
    and "\<forall>k<12000. out ! (length audio - 12000 + k) =
            audio ! (length audio - 12000 + k) * (1 - real k / 11999)"
proof -
  have l: "length (take (length audio - 12000) audio) = length audio - 12000"
    by simp
  show "length out = length audio"
    unfolding out_def using assms(1) by simp
  show "\<forall>k<length audio - 12000. out ! k = audio ! k"
    unfolding out_def by (simp add: nth_append del: upt_rec_numeral)
  show "\<forall>k<12000. out ! (length audio - 12000 + k) =
            audio ! (length audio - 12000 + k) * (1 - real k / 11999)"
  proof (intro allI impI)
    fix k :: nat assume k: "k < 12000"
    have "out ! (length (take (length audio - 12000) audio) + k) =
            map2 (*) (drop (length audio - 12000) audio)
                  (map (\<lambda>i. 1 - real i / 11999) [0..<12000]) ! k"
      unfolding out_def by (rule nth_append_length_plus)
    also have "\<dots> = audio ! (length audio - 12000 + k) * (1 - real k / 11999)"
      using k assms(1) by (simp del: upt_rec_numeral)
    finally show "out ! (length audio - 12000 + k) =
            audio ! (length audio - 12000 + k) * (1 - real k / 11999)"
      by simp
  qed
qed

subsection \<open>The shape of what the loop appends\<close>

lemma silence_after_final:
  "Suc i = n \<Longrightarrow> silence_after self n i file = Inr []"
  by (auto simp: silence_after_def)

lemma silence_after_not_final:
  "Suc i \<noteq> n \<Longrightarrow> silence_after self n i file = Inr gap \<Longrightarrow> \<exists>s. gap = [s]"
  by (auto simp: silence_after_def split: if_splits sum.splits)

lemma loop_body_Inr:
  assumes "loop_body e self n i file = Inr appended"
  obtains audio faded gap where
    "load_segment e self file = Inr audio"
    "apply_fades self n i audio = Inr faded"
    "silence_after self n i file = Inr gap"
    "appended = faded # gap"
  using assms by (auto simp: loop_body_def split: sum.splits)

lemma segments_loop_structure:
  "segments_loop e self n i fs = Inr segs \<Longrightarrow> i + length fs = n \<Longrightarrow>
     length segs = 2 * length fs - 1 \<and>
     (\<forall>j<length fs. \<exists>audio. load_segment e self (fs ! j) = Inr audio \<and>
                       apply_fades self n (i + j) audio = Inr (segs ! (2 * j))) \<and>
     (\<forall>j. Suc j < length fs \<longrightarrow>
          silence_after self n (i + j) (fs ! j) = Inr [segs ! (2 * j + 1)])"
proof (induction fs arbitrary: i segs)
  case Nil
  then show ?case by simp
next
  case (Cons f rest)
  from Cons.prems(1) obtain appended later where
    ap: "loop_body e self n i f = Inr appended" and
    la: "segments_loop e self n (Suc i) rest = Inr later" and
    segs: "segs = appended @ later"
    by (auto split: sum.splits)
  from ap obtain audio faded gap where
    ld: "load_segment e self f = Inr audio" and
    fd: "apply_fades self n i audio = Inr faded" and
    sl: "silence_after self n i f = Inr gap" and
    apd: "appended = faded # gap"
    by (rule loop_body_Inr)
  from Cons.prems(2) have n': "Suc i + length rest = n" by simp
  note IH = Cons.IH [OF la n']
  show ?case
  proof (cases rest)
    case Nil
    with Cons.prems(2) have "Suc i = n" by simp
    from silence_after_final [OF this, of self f] sl have "gap = []" by simp
    with Nil la segs apd have "segs = [faded]" by simp
    with Nil ld fd show ?thesis by simp
  next
    case (Cons g rest')
    with n' have "Suc i \<noteq> n" by simp
    from silence_after_not_final [OF this sl] obtain s where gap: "gap = [s]" ..
    with segs apd have segs': "segs = faded # s # later" by simp
    from IH Cons have len: "length later = 2 * length rest - 1"
      and lrest: "0 < length rest" by simp_all
    have c1: "length segs = 2 * length (f # rest) - 1"
      using segs' len lrest by simp
    have c2: "\<forall>j<length (f # rest). \<exists>audio. load_segment e self ((f # rest) ! j) = Inr audio \<and>
                       apply_fades self n (i + j) audio = Inr (segs ! (2 * j))"
    proof (intro allI impI)
      fix j assume j: "j < length (f # rest)"
      show "\<exists>audio. load_segment e self ((f # rest) ! j) = Inr audio \<and>
                       apply_fades self n (i + j) audio = Inr (segs ! (2 * j))"
      proof (cases j)
        case 0
        with ld fd segs' show ?thesis by simp
      next
        case (Suc j')
        with j have "j' < length rest" by simp
        with IH obtain audio' where "load_segment e self (rest ! j') = Inr audio'"
          "apply_fades self n (Suc i + j') audio' = Inr (later ! (2 * j'))" by blast
        with Suc segs' show ?thesis by simp
      qed
    qed
    have c3: "\<forall>j. Suc j < length (f # rest) \<longrightarrow>
          silence_after self n (i + j) ((f # rest) ! j) = Inr [segs ! (2 * j + 1)]"
    proof (intro allI impI)
      fix j assume j: "Suc j < length (f # rest)"
      show "silence_after self n (i + j) ((f # rest) ! j) = Inr [segs ! (2 * j + 1)]"
      proof (cases j)
        case 0
        with sl gap segs' show ?thesis by simp
      next
        case (Suc j')
        with j have "Suc j' < length rest" by simp
        with IH have "silence_after self n (Suc i + j') (rest ! j') = Inr [later ! (2 * j' + 1)]"
          by blast
        with Suc segs' show ?thesis by simp
      qed
    qed
    from c1 c2 c3 show ?thesis by blast
  qed
qed

subsection \<open>Silence gaps\<close>

lemma silence_after_init:
  "Suc i \<noteq> n \<Longrightarrow>
     silence_after (init cfg) n i file =
       Inr [replicate (if contains ''_topic'' (path_name file) then 36000
                       else if contains ''_speaker'' (path_name file) then 16800
                       else 24000) 0]"
  by (auto simp: silence_after_def create_silence_def init_def py_int_def np_zeros_def)

lemma rounded_gap_lengths:
  "nat (round (1.5 * real (sample_rate (init cfg)))) = 36000"
  "nat (round (0.7 * real (sample_rate (init cfg)))) = 16800"
  "nat (round (1.0 * real (sample_rate (init cfg)))) = 24000"
  by (simp_all add: init_def round_def)

text \<open>
  C2. In what the loop appends for n segments there are 2n - 1 buffers: segment j at
  position 2j and, for every segment j but the last, a buffer of zeros at position 2j + 1
  whose length is round(duration_seconds * sample_rate), with duration_seconds 1.5 when
  the file name contains "_topic", 0.7 when it contains "_speaker" and 1.0 otherwise
  (36000, 16800 and 24000 samples). The last buffer is the last segment: no silence
  follows it, whatever its name.
\<close>

theorem silence_gap_after_each_segment_but_last:
  assumes "segments_loop e (init cfg) (length files) 0 files = Inr segs"
  shows "length segs = 2 * length files - 1 \<and>
         (\<forall>j. Suc j < length files \<longrightarrow>
            segs ! (2 * j + 1) =
              replicate
                (nat (round ((if contains ''_topic'' (path_name (files ! j)) then 1.5
                              else if contains ''_speaker'' (path_name (files ! j)) then 0.7
                              else 1.0) * real (sample_rate (init cfg))))) 0 \<and>
            length (segs ! (2 * j + 1)) =
              (if contains ''_topic'' (path_name (files ! j)) then 36000
               else if contains ''_speaker'' (path_name (files ! j)) then 16800
               else 24000)) \<and>
         (files \<noteq> [] \<longrightarrow>
            silence_after (init cfg) (length files) (length files - 1) (last files) = Inr [] \<and>
            (\<exists>audio. load_segment e (init cfg) (last files) = Inr audio \<and>
               apply_fades (init cfg) (length files) (length files - 1) audio = Inr (last segs)))"
proof -
  note st = segments_loop_structure [OF assms, simplified]
  from st have len: "length segs = 2 * length files - 1" by simp
  have gaps: "\<forall>j. Suc j < length files \<longrightarrow>
            segs ! (2 * j + 1) =
              replicate
                (nat (round ((if contains ''_topic'' (path_name (files ! j)) then 1.5
                              else if contains ''_speaker'' (path_name (files ! j)) then 0.7
                              else 1.0) * real (sample_rate (init cfg))))) 0 \<and>
            length (segs ! (2 * j + 1)) =
              (if contains ''_topic'' (path_name (files ! j)) then 36000
               else if contains ''_speaker'' (path_name (files ! j)) then 16800
               else 24000)"
  proof (intro allI impI)
    fix j assume j: "Suc j < length files"
    with st have "silence_after (init cfg) (length files) j (files ! j) = Inr [segs ! Suc (2 * j)]"
      by blast
    moreover from j have "Suc j \<noteq> length files" by simp
    from silence_after_init [OF this, of cfg "files ! j"]
    have "silence_after (init cfg) (length files) j (files ! j) =
       Inr [replicate (if contains ''_topic'' (path_name (files ! j)) then 36000
                       else if contains ''_speaker'' (path_name (files ! j)) then 16800
                       else 24000) 0]" .
    ultimately have eq: "segs ! (2 * j + 1) =
       replicate (if contains ''_topic'' (path_name (files ! j)) then 36000
                       else if contains ''_speaker'' (path_name (files ! j)) then 16800
                       else 24000) 0" by simp
    show "segs ! (2 * j + 1) =
              replicate
                (nat (round ((if contains ''_topic'' (path_name (files ! j)) then 1.5
                              else if contains ''_speaker'' (path_name (files ! j)) then 0.7
                              else 1.0) * real (sample_rate (init cfg))))) 0 \<and>
            length (segs ! (2 * j + 1)) =
              (if contains ''_topic'' (path_name (files ! j)) then 36000
               else if contains ''_speaker'' (path_name (files ! j)) then 16800
               else 24000)"
    proof (cases "contains ''_topic'' (path_name (files ! j))")
      case True
      then show ?thesis
        unfolding eq by (simp only: if_True rounded_gap_lengths length_replicate simp_thms)
    next
      case False
      note nt = this
      show ?thesis
      proof (cases "contains ''_speaker'' (path_name (files ! j))")
        case True
        with nt show ?thesis
          unfolding eq
          by (simp only: if_True if_False rounded_gap_lengths length_replicate simp_thms)
      next
        case False
        with nt show ?thesis
          unfolding eq
          by (simp only: if_False rounded_gap_lengths length_replicate simp_thms)
      qed
    qed
  qed
  have fin: "files \<noteq> [] \<longrightarrow>
            silence_after (init cfg) (length files) (length files - 1) (last files) = Inr [] \<and>
            (\<exists>audio. load_segment e (init cfg) (last files) = Inr audio \<and>
               apply_fades (init cfg) (length files) (length files - 1) audio = Inr (last segs))"
  proof
    assume ne: "files \<noteq> []"
    then have l: "length files - 1 < length files" by simp
    from ne have s: "Suc (length files - 1) = length files" by simp
    have a: "silence_after (init cfg) (length files) (length files - 1) (last files) = Inr []"
      using s by (rule silence_after_final)
    from st l obtain audio where
      "load_segment e (init cfg) (files ! (length files - 1)) = Inr audio"
      "apply_fades (init cfg) (length files) (length files - 1) audio =
         Inr (segs ! (2 * (length files - 1)))" by blast
    moreover from ne have "files ! (length files - 1) = last files"
      by (simp add: last_conv_nth)
    moreover from len ne have "segs \<noteq> []" "2 * (length files - 1) = length segs - 1"
      by (cases files; cases segs; simp)+
    then have "segs ! (2 * (length files - 1)) = last segs"
      by (simp add: last_conv_nth)
    ultimately have "\<exists>audio. load_segment e (init cfg) (last files) = Inr audio \<and>
               apply_fades (init cfg) (length files) (length files - 1) audio = Inr (last segs)"
      by auto
    with a show "silence_after (init cfg) (length files) (length files - 1) (last files) = Inr [] \<and>
            (\<exists>audio. load_segment e (init cfg) (last files) = Inr audio \<and>
               apply_fades (init cfg) (length files) (length files - 1) audio = Inr (last segs))"
      by blast
  qed
  from len gaps fin show ?thesis by blast
qed

subsection \<open>The scenario of three one-second segments\<close>

lemma scenario_names:
  "contains ''_topic'' (path_name ''a_topic.wav'')"
  "\<not> contains ''_topic'' (path_name ''b_speaker.wav'')"
  "contains ''_speaker'' (path_name ''b_speaker.wav'')"
  "\<not> contains ''_topic'' (path_name ''c.wav'')"
  "\<not> contains ''_speaker'' (path_name ''c.wav'')"
  by (simp_all add: path_name_def)

lemma scenario_load:
  "load_segment (scenario_env a b c music) (init no_gain_config) ''a_topic.wav'' = Inr a"
  "load_segment (scenario_env a b c music) (init no_gain_config) ''b_speaker.wav'' = Inr b"
  "load_segment (scenario_env a b c music) (init no_gain_config) ''c.wav'' = Inr c"
  by (simp_all add: load_segment_def scenario_env_def init_def no_gain_config_def
      adjust_if_set_def to_mono_def)

lemma scenario_loop:
  assumes "12000 \<le> length a" and "12000 \<le> length c"
  shows "segments_loop (scenario_env a b c music) (init no_gain_config) 3 0
           [''a_topic.wav'', ''b_speaker.wav'', ''c.wav''] =
         Inr [map2 (*) (take 12000 a) (map (\<lambda>i. real i / 11999) [0..<12000]) @ drop 12000 a,
              replicate 36000 0,
              b,
              replicate 16800 0,
              take (length c - 12000) c @
                map2 (*) (drop (length c - 12000) c) (map (\<lambda>i. 1 - real i / 11999) [0..<12000])]"
proof -
  have f0: "apply_fades (init no_gain_config) 3 0 a =
      Inr (map2 (*) (take 12000 a) (map (\<lambda>i. real i / 11999) [0..<12000]) @ drop 12000 a)"
    unfolding apply_fades_first using assms(1) by (rule fade_in_long)
  have f1: "apply_fades (init no_gain_config) 3 (Suc 0) b = Inr b"
    by (rule apply_fades_middle) simp_all
  have "apply_fades (init no_gain_config) 3 (Suc (Suc 0)) c =
          fade_out (init no_gain_config) c 0.5"
    by (rule apply_fades_last) simp_all
  also have "\<dots> = Inr (take (length c - 12000) c @
                map2 (*) (drop (length c - 12000) c) (map (\<lambda>i. 1 - real i / 11999) [0..<12000]))"
    using assms(2) by (rule fade_out_long)
  finally have f2: "apply_fades (init no_gain_config) 3 (Suc (Suc 0)) c =
      Inr (take (length c - 12000) c @
                map2 (*) (drop (length c - 12000) c) (map (\<lambda>i. 1 - real i / 11999) [0..<12000]))" .
  have s0: "silence_after (init no_gain_config) 3 0 ''a_topic.wav'' = Inr [replicate 36000 0]"
    using silence_after_init [of 0 3 no_gain_config "''a_topic.wav''"]
    by (simp add: scenario_names)
  have s1: "silence_after (init no_gain_config) 3 (Suc 0) ''b_speaker.wav'' = Inr [replicate 16800 0]"
    using silence_after_init [of "Suc 0" 3 no_gain_config "''b_speaker.wav''"]
    by (simp add: scenario_names)
  have s2: "silence_after (init no_gain_config) 3 (Suc (Suc 0)) ''c.wav'' = Inr []"
    by (rule silence_after_final) simp
  have b0: "loop_body (scenario_env a b c music) (init no_gain_config) 3 0 ''a_topic.wav'' =
      Inr [map2 (*) (take 12000 a) (map (\<lambda>i. real i / 11999) [0..<12000]) @ drop 12000 a,
           replicate 36000 0]"
    by (simp add: loop_body_def scenario_load f0 s0)
  have b1: "loop_body (scenario_env a b c music) (init no_gain_config) 3 (Suc 0) ''b_speaker.wav'' =
      Inr [b, replicate 16800 0]"
    by (simp add: loop_body_def scenario_load f1 s1)
  have b2: "loop_body (scenario_env a b c music) (init no_gain_config) 3 (Suc (Suc 0)) ''c.wav'' =
      Inr [take (length c - 12000) c @
                map2 (*) (drop (length c - 12000) c) (map (\<lambda>i. 1 - real i / 11999) [0..<12000])]"
    by (simp add: loop_body_def scenario_load f2 s2)
  show ?thesis
    by (simp add: b0 b1 b2)
qed

lemma fade_in_init_length:
  "fade_in (init cfg) audio 0.5 = Inr out \<Longrightarrow> length out = length audio"
proof -
  assume a: "fade_in (init cfg) audio 0.5 = Inr out"
  from fade_in_Inr_long [OF a] have l: "12000 \<le> length audio" .
  from a fade_in_long [OF l, of cfg] faded_in_samples(1) [OF l] show ?thesis by simp
qed

lemma fade_out_init_length:
  "fade_out (init cfg) audio 0.5 = Inr out \<Longrightarrow> length out = length audio"
proof -
  assume a: "fade_out (init cfg) audio 0.5 = Inr out"
  from fade_out_Inr_long [OF a] have l: "12000 \<le> length audio" .
  from a fade_out_long [OF l, of cfg] faded_out_samples(1) [OF l] show ?thesis by simp
qed

lemma scenario_assemble:
  assumes "12000 \<le> length a" and "12000 \<le> length c"
    and "fade_in (init no_gain_config) a 0.5 = Inr fa"
    and "fade_out (init no_gain_config) c 0.5 = Inr fc"
  shows "assemble (scenario_env a b c music) (init no_gain_config)
           (Some (Paths [''a_topic.wav'', ''b_speaker.wav'', ''c.wav''])) None =
         Inr (''output/podcast.wav'',
              first_15s (init no_gain_config) music @ fa @ replicate 36000 0 @ b @
              replicate 16800 0 @ fc @ last_15s (init no_gain_config) music)"
proof -
  from assms(3) fade_in_long [OF assms(1), of no_gain_config]
  have fa: "map2 (*) (take 12000 a) (map (\<lambda>i. real i / 11999) [0..<12000]) @ drop 12000 a = fa"
    by simp
  from assms(4) fade_out_long [OF assms(2), of no_gain_config]
  have fc: "take (length c - 12000) c @
                map2 (*) (drop (length c - 12000) c) (map (\<lambda>i. 1 - real i / 11999) [0..<12000]) = fc"
    by simp
  have loop: "segments_loop (scenario_env a b c music) (init no_gain_config) (Suc (Suc (Suc 0))) 0
           [''a_topic.wav'', ''b_speaker.wav'', ''c.wav''] =
         Inr [fa, replicate 36000 0, b, replicate 16800 0, fc]"
    using scenario_loop [OF assms(1,2), of b music] unfolding fa fc
    by (simp only: numeral_3_eq_3)
  have env: "mkdir (scenario_env a b c music) = (\<lambda>_. Inr ())"
    "librosa_load (scenario_env a b c music) = (\<lambda>_ _. Inr music)"
    "sf_write (scenario_env a b c music) = (\<lambda>_ _ _. Inr ())"
    by (simp_all add: scenario_env_def)
  have cfg: "audio_dir (init no_gain_config) = ''output''"
    "output_file (init no_gain_config) = ''podcast.wav''"
    "bg_intro_volume (init no_gain_config) = None"
    "bg_outro_volume (init no_gain_config) = None"
    "sample_rate (init no_gain_config) = 24000"
    by (simp_all add: init_def no_gain_config_def)
  have pj: "path_join ''output'' ''podcast.wav'' = ''output/podcast.wav''"
    by (simp add: path_join_def)
  have body: "assemble_try (scenario_env a b c music) (init no_gain_config)
           (Some (Paths [''a_topic.wav'', ''b_speaker.wav'', ''c.wav''])) None =
         Inr (''output/podcast.wav'',
              first_15s (init no_gain_config) music @ fa @ replicate 36000 0 @ b @
              replicate 16800 0 @ fc @ last_15s (init no_gain_config) music)"
    by (simp add: assemble_try_def resolve_files_def loop env cfg pj adjust_if_set_def
        del: segments_loop.simps)
  then show ?thesis by (simp add: assemble_def)
qed

text \<open>
  C1. Three one-second segments named a_topic.wav, b_speaker.wav and c.wav, in that
  order, at 24000 Hz, with every gain unset and a music asset of 20 seconds: assemble
  writes the first 15 seconds of the music, the first segment with its first 12000
  samples multiplied by the ramp k / 11999 (the fade-in), 1.5 seconds of silence, the
  second segment as it is, 0.7 seconds of silence, the third segment with its last 12000
  samples multiplied by the ramp 1 - k / 11999 (the fade-out), and the last 15 seconds of
  the music: 35.2 * 24000 = 844800 samples in all. The two faded buffers are what the
  fade-in and the fade-out return on the first and the third segment.
\<close>

theorem scenario_output:
  assumes "length a = 24000" and "length b = 24000" and "length c = 24000"
    and "length music = 480000"
  shows "assemble (scenario_env a b c music) (init no_gain_config)
           (Some (Paths [''a_topic.wav'', ''b_speaker.wav'', ''c.wav''])) None =
         Inr (''output/podcast.wav'',
              take 360000 music @
              (map2 (*) (take 12000 a) (map (\<lambda>k. real k / 11999) [0..<12000]) @ drop 12000 a) @
              replicate 36000 0 @
              b @
              replicate 16800 0 @
              (take 12000 c @ map2 (*) (drop 12000 c) (map (\<lambda>k. 1 - real k / 11999) [0..<12000])) @
              drop 120000 music) \<and>
         length (take 360000 music @
              (map2 (*) (take 12000 a) (map (\<lambda>k. real k / 11999) [0..<12000]) @ drop 12000 a) @
              replicate 36000 0 @
              b @
              replicate 16800 0 @
              (take 12000 c @ map2 (*) (drop 12000 c) (map (\<lambda>k. 1 - real k / 11999) [0..<12000])) @
              drop 120000 music) = 844800 \<and>
         fade_in (init no_gain_config) a 0.5 =
           Inr (map2 (*) (take 12000 a) (map (\<lambda>k. real k / 11999) [0..<12000]) @ drop 12000 a) \<and>
         fade_out (init no_gain_config) c 0.5 =
           Inr (take 12000 c @ map2 (*) (drop 12000 c) (map (\<lambda>k. 1 - real k / 11999) [0..<12000]))"
proof -
  from assms have la: "12000 \<le> length a" and lc: "12000 \<le> length c" by simp_all
  have fa: "fade_in (init no_gain_config) a 0.5 =
      Inr (map2 (*) (take 12000 a) (map (\<lambda>k. real k / 11999) [0..<12000]) @ drop 12000 a)"
    using la by (rule fade_in_long)
  have "fade_out (init no_gain_config) c 0.5 =
      Inr (take (length c - 12000) c @
           map2 (*) (drop (length c - 12000) c) (map (\<lambda>k. 1 - real k / 11999) [0..<12000]))"
    using lc by (rule fade_out_long)
  then have fc: "fade_out (init no_gain_config) c 0.5 =
      Inr (take 12000 c @ map2 (*) (drop 12000 c) (map (\<lambda>k. 1 - real k / 11999) [0..<12000]))"
    unfolding assms(3) by simp
  have head_eq: "first_15s (init no_gain_config) music = take 360000 music"
    using assms(4) by (simp add: first_15s_def init_def)
  have tail_eq: "last_15s (init no_gain_config) music = drop 120000 music"
    using assms(4) by (simp add: last_15s_def slice_last_def init_def)
  have len: "length (take 360000 music @
              (map2 (*) (take 12000 a) (map (\<lambda>k. real k / 11999) [0..<12000]) @ drop 12000 a) @
              replicate 36000 0 @
              b @
              replicate 16800 0 @
              (take 12000 c @ map2 (*) (drop 12000 c) (map (\<lambda>k. 1 - real k / 11999) [0..<12000])) @
              drop 120000 music) = 844800"
    using assms by simp
  from scenario_assemble [OF la lc fa fc, of b music] fa fc len show ?thesis
    unfolding head_eq tail_eq by blast
qed

theorem scenario_output_witness:
  "length constant_second = 24000 \<and> length (replicate 480000 (2::real)) = 480000 \<and>
   \<not> isl (assemble
     (scenario_env constant_second constant_second constant_second (replicate 480000 2))
     (init no_gain_config) (Some (Paths [''a_topic.wav'', ''b_speaker.wav'', ''c.wav''])) None) \<and>
   fst (projr (assemble
     (scenario_env constant_second constant_second constant_second (replicate 480000 2))
     (init no_gain_config) (Some (Paths [''a_topic.wav'', ''b_speaker.wav'', ''c.wav''])) None)) =
     ''output/podcast.wav'' \<and>
   length (snd (projr (assemble
     (scenario_env constant_second constant_second constant_second (replicate 480000 2))
     (init no_gain_config) (Some (Paths [''a_topic.wav'', ''b_speaker.wav'', ''c.wav''])) None))) =
     844800 \<and>
   snd (projr (assemble
     (scenario_env constant_second constant_second constant_second (replicate 480000 2))
     (init no_gain_config) (Some (Paths [''a_topic.wav'', ''b_speaker.wav'', ''c.wav''])) None)) !
     359999 = 2 \<and>
   snd (projr (assemble
     (scenario_env constant_second constant_second constant_second (replicate 480000 2))
     (init no_gain_config) (Some (Paths [''a_topic.wav'', ''b_speaker.wav'', ''c.wav''])) None)) !
     360000 = 0 \<and>
   snd (projr (assemble
     (scenario_env constant_second constant_second constant_second (replicate 480000 2))
     (init no_gain_config) (Some (Paths [''a_topic.wav'', ''b_speaker.wav'', ''c.wav''])) None)) !
     366000 = 6000 / 11999 \<and>
   snd (projr (assemble
     (scenario_env constant_second constant_second constant_second (replicate 480000 2))
     (init no_gain_config) (Some (Paths [''a_topic.wav'', ''b_speaker.wav'', ''c.wav''])) None)) !
     372000 = 1 \<and>
   snd (projr (assemble
     (scenario_env constant_second constant_second constant_second (replicate 480000 2))
     (init no_gain_config) (Some (Paths [''a_topic.wav'', ''b_speaker.wav'', ''c.wav''])) None)) !
     384000 = 0 \<and>
   snd (projr (assemble
     (scenario_env constant_second constant_second constant_second (replicate 480000 2))
     (init no_gain_config) (Some (Paths [''a_topic.wav'', ''b_speaker.wav'', ''c.wav''])) None)) !
     420000 = 1 \<and>
   snd (projr (assemble
     (scenario_env constant_second constant_second constant_second (replicate 480000 2))
     (init no_gain_config) (Some (Paths [''a_topic.wav'', ''b_speaker.wav'', ''c.wav''])) None)) !
     460800 = 1 \<and>
   snd (projr (assemble
     (scenario_env constant_second constant_second constant_second (replicate 480000 2))
     (init no_gain_config) (Some (Paths [''a_topic.wav'', ''b_speaker.wav'', ''c.wav''])) None)) !
     478800 = 5999 / 11999 \<and>
   snd (projr (assemble
     (scenario_env constant_second constant_second constant_second (replicate 480000 2))
     (init no_gain_config) (Some (Paths [''a_topic.wav'', ''b_speaker.wav'', ''c.wav''])) None)) !
     484799 = 0 \<and>
   snd (projr (assemble
     (scenario_env constant_second constant_second constant_second (replicate 480000 2))
     (init no_gain_config) (Some (Paths [''a_topic.wav'', ''b_speaker.wav'', ''c.wav''])) None)) !
     484800 = 2"
proof -
  let ?out = "take 360000 (replicate 480000 (2::real)) @
              (map2 (*) (take 12000 constant_second) (map (\<lambda>k. real k / 11999) [0..<12000]) @
               drop 12000 constant_second) @
              replicate 36000 0 @
              constant_second @
              replicate 16800 0 @
              (take 12000 constant_second @
               map2 (*) (drop 12000 constant_second) (map (\<lambda>k. 1 - real k / 11999) [0..<12000])) @
              drop 120000 (replicate 480000 2)"
  have s: "length constant_second = 24000" by (simp add: constant_second_def)
  have m: "length (replicate 480000 (2::real)) = 480000" by simp
  note inst = scenario_output [OF s s s m]
  from inst have run: "assemble
     (scenario_env constant_second constant_second constant_second (replicate 480000 2))
     (init no_gain_config) (Some (Paths [''a_topic.wav'', ''b_speaker.wav'', ''c.wav''])) None =
     Inr (''output/podcast.wav'', ?out)"
    by (rule conjunct1)
  from inst have len: "length ?out = 844800"
    by (elim conjE)
  have n1: "?out ! 359999 = 2"
    by (simp add: nth_append constant_second_def)
  have n2: "?out ! 360000 = 0"
    by (simp add: nth_append constant_second_def)
  have n3: "?out ! 366000 = 6000 / 11999"
    by (simp add: nth_append constant_second_def)
  have n4: "?out ! 372000 = 1"
    by (simp add: nth_append constant_second_def)
  have n5: "?out ! 384000 = 0"
    by (simp add: nth_append constant_second_def)
  have n6: "?out ! 420000 = 1"
    by (simp add: nth_append constant_second_def)
  have n7: "?out ! 460800 = 1"
    by (simp add: nth_append constant_second_def)
  have n8: "?out ! 478800 = 5999 / 11999"
    by (simp add: nth_append constant_second_def)
  have n9: "?out ! 484799 = 0"
    by (simp add: nth_append constant_second_def)
  have n10: "?out ! 484800 = 2"
    by (simp add: nth_append constant_second_def)
  from run have e1: "\<not> isl (assemble
     (scenario_env constant_second constant_second constant_second (replicate 480000 2))
     (init no_gain_config) (Some (Paths [''a_topic.wav'', ''b_speaker.wav'', ''c.wav''])) None)"
    by simp
  from run have e2: "fst (projr (assemble
     (scenario_env constant_second constant_second constant_second (replicate 480000 2))
     (init no_gain_config) (Some (Paths [''a_topic.wav'', ''b_speaker.wav'', ''c.wav''])) None)) =
     ''output/podcast.wav''"
    by simp
  from run have e3: "snd (projr (assemble
     (scenario_env constant_second constant_second constant_second (replicate 480000 2))
     (init no_gain_config) (Some (Paths [''a_topic.wav'', ''b_speaker.wav'', ''c.wav''])) None)) =
     ?out"
    by simp
  show ?thesis
    unfolding e3
    using s m e1 e2 len n1 n2 n3 n4 n5 n6 n7 n8 n9 n10 by - (intro conjI; assumption)
qed

theorem silence_gap_after_each_segment_but_last_witness:
  "segments_loop (scenario_env constant_second constant_second constant_second [])
     (init no_gain_config) (length scenario_files) 0 scenario_files =
   Inr (projr (segments_loop (scenario_env constant_second constant_second constant_second [])
     (init no_gain_config) (length scenario_files) 0 scenario_files)) \<and>
   Suc 0 < length scenario_files \<and> Suc 1 < length scenario_files \<and> scenario_files \<noteq> [] \<and>
   length (projr (segments_loop (scenario_env constant_second constant_second constant_second [])
     (init no_gain_config) (length scenario_files) 0 scenario_files)) = 5 \<and>
   projr (segments_loop (scenario_env constant_second constant_second constant_second [])
     (init no_gain_config) (length scenario_files) 0 scenario_files) ! 1 = replicate 36000 0 \<and>
   projr (segments_loop (scenario_env constant_second constant_second constant_second [])
     (init no_gain_config) (length scenario_files) 0 scenario_files) ! 3 = replicate 16800 0 \<and>
   silence_after (init no_gain_config) (length scenario_files) (length scenario_files - 1)
     (last scenario_files) = Inr []"
proof -
  have l: "12000 \<le> length constant_second" by (simp add: constant_second_def)
  have n: "length scenario_files = 3" by (simp add: scenario_files_def)
  have ok: "segments_loop (scenario_env constant_second constant_second constant_second [])
     (init no_gain_config) (length scenario_files) 0 scenario_files =
   Inr (projr (segments_loop (scenario_env constant_second constant_second constant_second [])
     (init no_gain_config) (length scenario_files) 0 scenario_files))"
    unfolding n unfolding scenario_files_def scenario_loop [OF l l] by simp
  have nm: "contains ''_topic'' (path_name (scenario_files ! 0))"
    "\<not> contains ''_topic'' (path_name (scenario_files ! 1))"
    "contains ''_speaker'' (path_name (scenario_files ! 1))"
    using scenario_names by (simp_all add: scenario_files_def)
  note inst = silence_gap_after_each_segment_but_last [OF ok]
  from inst have a: "length (projr (segments_loop (scenario_env constant_second constant_second constant_second [])
     (init no_gain_config) (length scenario_files) 0 scenario_files)) = 5"
    by (simp add: n)
  from inst [THEN conjunct2, THEN conjunct1, rule_format, of 0]
  have b: "projr (segments_loop (scenario_env constant_second constant_second constant_second [])
     (init no_gain_config) (length scenario_files) 0 scenario_files) ! 1 = replicate 36000 0"
    using nm by (simp add: n init_def round_def)
  from inst [THEN conjunct2, THEN conjunct1, rule_format, of 1]
  have c: "projr (segments_loop (scenario_env constant_second constant_second constant_second [])
     (init no_gain_config) (length scenario_files) 0 scenario_files) ! 3 = replicate 16800 0"
    using nm by (simp add: n init_def round_def)
  from inst [THEN conjunct2, THEN conjunct2]
  have d: "silence_after (init no_gain_config) (length scenario_files) (length scenario_files - 1)
     (last scenario_files) = Inr []"
    by (simp add: scenario_files_def)
  from ok a b c d n show ?thesis by (simp add: scenario_files_def)
qed

subsection \<open>Fades on the first and the last segment\<close>

text \<open>
  C5. For n >= 1 segments, the first buffer the loop appends is the first segment with
  its first 0.5 * 24000 = 12000 samples multiplied by the ramp k / 11999 (from 0 to 1)
  and every later sample unchanged; for n >= 2 the last buffer is the last segment with
  its last 12000 samples multiplied by the ramp 1 - k / 11999 (from 1 to 0) and every
  earlier sample unchanged. For n = 1 the one buffer is the fade-in of the segment and
  nothing else: no fade-out is applied.
\<close>

theorem fades_alter_only_the_ends:
  assumes "segments_loop e (init cfg) (length files) 0 files = Inr segs" and "files \<noteq> []"
  shows "(\<exists>first. load_segment e (init cfg) (files ! 0) = Inr first \<and>
            12000 \<le> length first \<and> length (segs ! 0) = length first \<and>
            (\<forall>k<12000. segs ! 0 ! k = first ! k * (real k / 11999)) \<and>
            (\<forall>k. 12000 \<le> k \<and> k < length first \<longrightarrow> segs ! 0 ! k = first ! k)) \<and>
         (1 < length files \<longrightarrow>
            (\<exists>final. load_segment e (init cfg) (files ! (length files - 1)) = Inr final \<and>
               12000 \<le> length final \<and>
               length (segs ! (2 * (length files - 1))) = length final \<and>
               (\<forall>k<length final - 12000. segs ! (2 * (length files - 1)) ! k = final ! k) \<and>
               (\<forall>k<12000. segs ! (2 * (length files - 1)) ! (length final - 12000 + k) =
                   final ! (length final - 12000 + k) * (1 - real k / 11999)))) \<and>
         (length files = 1 \<longrightarrow>
            (\<exists>only. load_segment e (init cfg) (files ! 0) = Inr only \<and>
               segs = [segs ! 0] \<and> fade_in (init cfg) only 0.5 = Inr (segs ! 0)))"
proof (intro conjI impI)
  note st = segments_loop_structure [OF assms(1), simplified]
  from assms(2) have pos: "0 < length files" by simp
  with st obtain first where
    ld: "load_segment e (init cfg) (files ! 0) = Inr first" and
    "apply_fades (init cfg) (length files) 0 first = Inr (segs ! (2 * 0))"
    by blast
  then have fi: "fade_in (init cfg) first 0.5 = Inr (segs ! 0)"
    by (simp only: apply_fades_first mult_0_right)
  from fade_in_Inr_long [OF fi] have l: "12000 \<le> length first" .
  from fi fade_in_long [OF l, of cfg]
  have eq: "segs ! 0 =
      map2 (*) (take 12000 first) (map (\<lambda>i. real i / 11999) [0..<12000]) @ drop 12000 first"
    by simp
  from ld l faded_in_samples [OF l]
  show "\<exists>first. load_segment e (init cfg) (files ! 0) = Inr first \<and>
            12000 \<le> length first \<and> length (segs ! 0) = length first \<and>
            (\<forall>k<12000. segs ! 0 ! k = first ! k * (real k / 11999)) \<and>
            (\<forall>k. 12000 \<le> k \<and> k < length first \<longrightarrow> segs ! 0 ! k = first ! k)"
    unfolding eq by blast
  {
    assume one: "length files = 1"
    with st have "length segs = 1" by simp
    then have "segs = [segs ! 0]" by (cases segs) simp_all
    with ld fi
    show "\<exists>only. load_segment e (init cfg) (files ! 0) = Inr only \<and>
               segs = [segs ! 0] \<and> fade_in (init cfg) only 0.5 = Inr (segs ! 0)"
      by blast
  }
  {
    assume more: "1 < length files"
    then have "length files - 1 < length files" by simp
    with st obtain final where
      ldf: "load_segment e (init cfg) (files ! (length files - 1)) = Inr final" and
      af: "apply_fades (init cfg) (length files) (length files - 1) final =
             Inr (segs ! (2 * (length files - 1)))"
      by blast
    from more have "0 < length files - 1" "Suc (length files - 1) = length files" by simp_all
    from apply_fades_last [OF this, of "init cfg" final] af
    have fo: "fade_out (init cfg) final 0.5 = Inr (segs ! (2 * (length files - 1)))"
      by simp
    from fade_out_Inr_long [OF fo] have lf: "12000 \<le> length final" .
    from fo fade_out_long [OF lf, of cfg]
    have eqf: "segs ! (2 * (length files - 1)) =
        take (length final - 12000) final @
          map2 (*) (drop (length final - 12000) final) (map (\<lambda>i. 1 - real i / 11999) [0..<12000])"
      by simp
    from ldf lf faded_out_samples [OF lf]
    show "\<exists>final. load_segment e (init cfg) (files ! (length files - 1)) = Inr final \<and>
               12000 \<le> length final \<and>
               length (segs ! (2 * (length files - 1))) = length final \<and>
               (\<forall>k<length final - 12000. segs ! (2 * (length files - 1)) ! k = final ! k) \<and>
               (\<forall>k<12000. segs ! (2 * (length files - 1)) ! (length final - 12000 + k) =
                   final ! (length final - 12000 + k) * (1 - real k / 11999))"
      unfolding eqf by blast
  }
qed

theorem fades_alter_only_the_ends_witness:
  "segments_loop (scenario_env constant_second constant_second constant_second [])
     (init no_gain_config) (length scenario_files) 0 scenario_files =
   Inr (projr (segments_loop (scenario_env constant_second constant_second constant_second [])
     (init no_gain_config) (length scenario_files) 0 scenario_files)) \<and>
   scenario_files \<noteq> [] \<and> 1 < length scenario_files \<and>
   projr (segments_loop (scenario_env constant_second constant_second constant_second [])
     (init no_gain_config) (length scenario_files) 0 scenario_files) ! 0 ! 6000 = 6000 / 11999 \<and>
   projr (segments_loop (scenario_env constant_second constant_second constant_second [])
     (init no_gain_config) (length scenario_files) 0 scenario_files) ! 0 ! 12000 = 1 \<and>
   projr (segments_loop (scenario_env constant_second constant_second constant_second [])
     (init no_gain_config) (length scenario_files) 0 scenario_files) ! 4 ! 11999 = 1 \<and>
   projr (segments_loop (scenario_env constant_second constant_second constant_second [])
     (init no_gain_config) (length scenario_files) 0 scenario_files) ! 4 ! 23999 = 0"
proof -
  let ?S = "projr (segments_loop (scenario_env constant_second constant_second constant_second [])
     (init no_gain_config) (length scenario_files) 0 scenario_files)"
  have l: "12000 \<le> length constant_second" by (simp add: constant_second_def)
  have n: "length scenario_files = 3" by (simp add: scenario_files_def)
  have ok: "segments_loop (scenario_env constant_second constant_second constant_second [])
     (init no_gain_config) (length scenario_files) 0 scenario_files = Inr ?S"
    unfolding n unfolding scenario_files_def scenario_loop [OF l l] by simp
  have ne: "scenario_files \<noteq> []" by (simp add: scenario_files_def)
  have f0: "scenario_files ! 0 = ''a_topic.wav''" and f2: "scenario_files ! 2 = ''c.wav''"
    by (simp_all add: scenario_files_def)
  note inst = fades_alter_only_the_ends [OF ok ne]
  from inst [THEN conjunct1] obtain first where
    "load_segment (scenario_env constant_second constant_second constant_second [])
       (init no_gain_config) (scenario_files ! 0) = Inr first"
    and a1: "\<forall>k<12000. ?S ! 0 ! k = first ! k * (real k / 11999)"
    and a2: "\<forall>k. 12000 \<le> k \<and> k < length first \<longrightarrow> ?S ! 0 ! k = first ! k"
    by blast
  then have first: "first = constant_second"
    unfolding f0 scenario_load by simp
  from a1 have "(6000::nat) < 12000 \<longrightarrow> ?S ! 0 ! 6000 = first ! 6000 * (real 6000 / 11999)"
    by (rule spec)
  then have b1: "?S ! 0 ! 6000 = 6000 / 11999"
    by (simp add: first constant_second_def)
  from a2 have "12000 \<le> (12000::nat) \<and> 12000 < length first \<longrightarrow> ?S ! 0 ! 12000 = first ! 12000"
    by (rule spec)
  then have b2: "?S ! 0 ! 12000 = 1"
    by (simp add: first constant_second_def)
  from inst [THEN conjunct2, THEN conjunct1] n obtain final where
    "load_segment (scenario_env constant_second constant_second constant_second [])
       (init no_gain_config) (scenario_files ! (length scenario_files - 1)) = Inr final"
    and c1: "\<forall>k<length final - 12000. ?S ! (2 * (length scenario_files - 1)) ! k = final ! k"
    and c2: "\<forall>k<12000. ?S ! (2 * (length scenario_files - 1)) ! (length final - 12000 + k) =
                   final ! (length final - 12000 + k) * (1 - real k / 11999)"
    by auto
  then have final: "final = constant_second"
    unfolding n using f2 scenario_load(3) [of constant_second constant_second constant_second "[]"]
    by simp
  from c1 have "(11999::nat) < length final - 12000 \<longrightarrow>
      ?S ! (2 * (length scenario_files - 1)) ! 11999 = final ! 11999"
    by (rule spec)
  then have b3: "?S ! 4 ! 11999 = 1"
    by (simp add: final constant_second_def n)
  from c2 have "(11999::nat) < 12000 \<longrightarrow>
      ?S ! (2 * (length scenario_files - 1)) ! (length final - 12000 + 11999) =
                   final ! (length final - 12000 + 11999) * (1 - real 11999 / 11999)"
    by (rule spec)
  then have b4: "?S ! 4 ! 23999 = 0"
    by (simp add: final constant_second_def n)
  from ok ne n b1 b2 b3 b4 show ?thesis by simp
qed

subsection \<open>What the output depends on\<close>

lemma load_segment_cong:
  assumes "sf_read e1 f = sf_read e2 f"
    and "librosa_resample e1 = librosa_resample e2"
    and "sample_rate s1 = sample_rate s2"
    and "vocal_volume s1 = vocal_volume s2"
  shows "load_segment e1 s1 f = load_segment e2 s2 f"
  using assms by (simp add: load_segment_def split: sum.splits prod.splits)

lemma apply_fades_cong:
  "sample_rate s1 = sample_rate s2 \<Longrightarrow> apply_fades s1 n i audio = apply_fades s2 n i audio"
  by (simp add: apply_fades_def fade_in_def fade_out_def)

lemma silence_after_cong:
  "sample_rate s1 = sample_rate s2 \<Longrightarrow> silence_after s1 n i f = silence_after s2 n i f"
  by (simp add: silence_after_def create_silence_def)

lemma loop_body_cong:
  assumes "sf_read e1 f = sf_read e2 f"
    and "librosa_resample e1 = librosa_resample e2"
    and "sample_rate s1 = sample_rate s2"
    and "vocal_volume s1 = vocal_volume s2"
  shows "loop_body e1 s1 n i f = loop_body e2 s2 n i f"
  unfolding loop_body_def load_segment_cong [OF assms]
    apply_fades_cong [OF assms(3)] silence_after_cong [OF assms(3)] ..

lemma segments_loop_cong:
  assumes "\<forall>f\<in>set files. sf_read e1 f = sf_read e2 f"
    and "librosa_resample e1 = librosa_resample e2"
    and "sample_rate s1 = sample_rate s2"
    and "vocal_volume s1 = vocal_volume s2"
  shows "segments_loop e1 s1 n i files = segments_loop e2 s2 n i files"
  using assms(1)
proof (induction files arbitrary: i)
  case Nil
  show ?case by simp
next
  case (Cons f rest)
  from Cons.prems have "sf_read e1 f = sf_read e2 f" by simp
  from loop_body_cong [OF this assms(2,3,4)]
  have b: "loop_body e1 s1 n i f = loop_body e2 s2 n i f" .
  from Cons.prems have "\<forall>f\<in>set rest. sf_read e1 f = sf_read e2 f" by simp
  from Cons.IH [OF this]
  have r: "segments_loop e1 s1 n (Suc i) rest = segments_loop e2 s2 n (Suc i) rest" .
  show ?case by (simp add: b r split: sum.splits)
qed

lemma assemble_try_Inr:
  assumes "assemble_try e self audio_files output_dir = Inr (p, out)"
  obtains files music_audio segs where
    "resolve_files e self audio_files = Inr files"
    "librosa_load e (music_path self) (sample_rate self) = Inr music_audio"
    "segments_loop e self (length files) 0 files = Inr segs"
    "out = concat ([adjust_if_set (bg_intro_volume self) (first_15s self music_audio)] @ segs @
                   [adjust_if_set (bg_outro_volume self) (last_15s self music_audio)])"
  using assms
  by (auto simp: assemble_try_def Let_def split: sum.splits if_splits)

lemma assemble_Inr:
  "assemble e self audio_files output_dir = Inr r \<longleftrightarrow>
     assemble_try e self audio_files output_dir = Inr r"
  by (simp add: assemble_def split: sum.splits)

text \<open>
  C9. The buffer assemble writes is a function of the ordered segment list and what
  reading each segment gives, of the music asset as loaded, and of the sample rate and
  the three gains that are applied: two calls that agree on these and both return write
  the same samples, whatever else differs (the rest of the file system, the output
  location, the unused music-body gain).
\<close>

theorem assemble_output_deterministic:
  assumes "resolve_files e1 s1 audio_files1 = Inr files"
    and "resolve_files e2 s2 audio_files2 = Inr files"
    and "\<forall>f\<in>set files. sf_read e1 f = sf_read e2 f"
    and "librosa_resample e1 = librosa_resample e2"
    and "librosa_load e1 (music_path s1) (sample_rate s1) =
         librosa_load e2 (music_path s2) (sample_rate s2)"
    and "sample_rate s1 = sample_rate s2"
    and "vocal_volume s1 = vocal_volume s2"
    and "bg_intro_volume s1 = bg_intro_volume s2"
    and "bg_outro_volume s1 = bg_outro_volume s2"
    and "assemble e1 s1 audio_files1 output_dir1 = Inr (p1, out1)"
    and "assemble e2 s2 audio_files2 output_dir2 = Inr (p2, out2)"
  shows "out1 = out2"
proof -
  from assms(10) have "assemble_try e1 s1 audio_files1 output_dir1 = Inr (p1, out1)"
    by (simp only: assemble_Inr)
  then obtain files1 music1 segs1 where
    f1: "resolve_files e1 s1 audio_files1 = Inr files1" and
    m1: "librosa_load e1 (music_path s1) (sample_rate s1) = Inr music1" and
    l1: "segments_loop e1 s1 (length files1) 0 files1 = Inr segs1" and
    o1: "out1 = concat ([adjust_if_set (bg_intro_volume s1) (first_15s s1 music1)] @ segs1 @
                   [adjust_if_set (bg_outro_volume s1) (last_15s s1 music1)])"
    by (rule assemble_try_Inr)
  from assms(11) have "assemble_try e2 s2 audio_files2 output_dir2 = Inr (p2, out2)"
    by (simp only: assemble_Inr)
  then obtain files2 music2 segs2 where
    f2: "resolve_files e2 s2 audio_files2 = Inr files2" and
    m2: "librosa_load e2 (music_path s2) (sample_rate s2) = Inr music2" and
    l2: "segments_loop e2 s2 (length files2) 0 files2 = Inr segs2" and
    o2: "out2 = concat ([adjust_if_set (bg_intro_volume s2) (first_15s s2 music2)] @ segs2 @
                   [adjust_if_set (bg_outro_volume s2) (last_15s s2 music2)])"
    by (rule assemble_try_Inr)
  from f1 f2 assms(1,2) have fs: "files1 = files" "files2 = files" by simp_all
  from m1 m2 assms(5) have music: "music1 = music2" by simp
  from segments_loop_cong [OF assms(3,4,6,7), of "length files" 0] l1 l2
  have segs: "segs1 = segs2" unfolding fs by simp
  have ex: "first_15s s1 music2 = first_15s s2 music2" "last_15s s1 music2 = last_15s s2 music2"
    using assms(6) by (simp_all add: first_15s_def last_15s_def)
  show ?thesis
    unfolding o1 o2 music segs ex assms(8,9) ..
qed

lemma rerun_agrees:
  "sf_read (scenario_env constant_second constant_second constant_second (replicate 480000 1)) =
     sf_read rerun_env"
  "librosa_resample (scenario_env constant_second constant_second constant_second (replicate 480000 1)) =
     librosa_resample rerun_env"
  "librosa_load (scenario_env constant_second constant_second constant_second (replicate 480000 1))
     (music_path (init no_gain_config)) (sample_rate (init no_gain_config)) =
   librosa_load rerun_env (music_path other_content_gain) (sample_rate other_content_gain)"
  "sample_rate (init no_gain_config) = sample_rate other_content_gain"
  "vocal_volume (init no_gain_config) = vocal_volume other_content_gain"
  "bg_intro_volume (init no_gain_config) = bg_intro_volume other_content_gain"
  "bg_outro_volume (init no_gain_config) = bg_outro_volume other_content_gain"
  by (simp_all add: rerun_env_def scenario_env_def other_content_gain_def)

lemma first_run_returns:
  "\<exists>out. assemble (scenario_env constant_second constant_second constant_second (replicate 480000 1))
           (init no_gain_config) (Some (Paths scenario_files)) None =
         Inr (''output/podcast.wav'', out)"
proof -
  have l: "12000 \<le> length constant_second" by (simp add: constant_second_def)
  from fade_in_long [OF l, of no_gain_config] obtain fa where
    fa: "fade_in (init no_gain_config) constant_second 0.5 = Inr fa" by blast
  from fade_out_long [OF l, of no_gain_config] obtain fc where
    fc: "fade_out (init no_gain_config) constant_second 0.5 = Inr fc" by blast
  from scenario_assemble [OF l l fa fc] show ?thesis
    unfolding scenario_files_def by blast
qed

lemma rerun_returns:
  "\<exists>out. assemble rerun_env other_content_gain (Some (Paths scenario_files))
           (Some ''elsewhere'') = Inr (''elsewhere/podcast.wav'', out)"
proof -
  have l: "12000 \<le> length constant_second" by (simp add: constant_second_def)
  have "\<forall>f\<in>set scenario_files.
      sf_read (scenario_env constant_second constant_second constant_second (replicate 480000 1)) f =
      sf_read rerun_env f"
    by (simp add: rerun_agrees(1))
  from segments_loop_cong [OF this rerun_agrees(2,4,5), of 3 0]
    scenario_loop [OF l l, of constant_second "replicate 480000 1"]
  obtain segs where loop: "segments_loop rerun_env other_content_gain (Suc (Suc (Suc 0))) 0
      [''a_topic.wav'', ''b_speaker.wav'', ''c.wav''] = Inr segs"
    by (simp add: scenario_files_def numeral_3_eq_3)
  have env: "mkdir rerun_env = (\<lambda>_. Inr ())"
    "librosa_load rerun_env = (\<lambda>_ _. Inr (replicate 480000 1))"
    "sf_write rerun_env = (\<lambda>_ _ _. Inr ())"
    by (simp_all add: rerun_env_def scenario_env_def)
  have cfg: "output_file other_content_gain = ''podcast.wav''"
    "sample_rate other_content_gain = 24000"
    by (simp_all add: other_content_gain_def init_def no_gain_config_def)
  have pj: "path_join ''elsewhere'' ''podcast.wav'' = ''elsewhere/podcast.wav''"
    by (simp add: path_join_def)
  have "\<exists>out. assemble_try rerun_env other_content_gain (Some (Paths scenario_files))
           (Some ''elsewhere'') = Inr (''elsewhere/podcast.wav'', out)"
    by (simp add: assemble_try_def resolve_files_def scenario_files_def loop env cfg pj
        del: segments_loop.simps)
  then show ?thesis by (auto simp: assemble_def)
qed

theorem assemble_output_deterministic_witness:
  "assemble (scenario_env constant_second constant_second constant_second (replicate 480000 1))
     (init no_gain_config) (Some (Paths scenario_files)) None =
   Inr (''output/podcast.wav'',
        snd (projr (assemble
          (scenario_env constant_second constant_second constant_second (replicate 480000 1))
          (init no_gain_config) (Some (Paths scenario_files)) None))) \<and>
   assemble rerun_env other_content_gain (Some (Paths scenario_files)) (Some ''elsewhere'') =
   Inr (''elsewhere/podcast.wav'',
        snd (projr (assemble rerun_env other_content_gain (Some (Paths scenario_files))
          (Some ''elsewhere'')))) \<and>
   snd (projr (assemble
          (scenario_env constant_second constant_second constant_second (replicate 480000 1))
          (init no_gain_config) (Some (Paths scenario_files)) None)) =
   snd (projr (assemble rerun_env other_content_gain (Some (Paths scenario_files))
          (Some ''elsewhere'')))"
proof -
  from first_run_returns
  have a: "assemble (scenario_env constant_second constant_second constant_second (replicate 480000 1))
     (init no_gain_config) (Some (Paths scenario_files)) None =
   Inr (''output/podcast.wav'',
        snd (projr (assemble
          (scenario_env constant_second constant_second constant_second (replicate 480000 1))
          (init no_gain_config) (Some (Paths scenario_files)) None)))"
    by auto
  from rerun_returns
  have b: "assemble rerun_env other_content_gain (Some (Paths scenario_files)) (Some ''elsewhere'') =
   Inr (''elsewhere/podcast.wav'',
        snd (projr (assemble rerun_env other_content_gain (Some (Paths scenario_files))
          (Some ''elsewhere''))))"
    by auto
  have r1: "resolve_files
      (scenario_env constant_second constant_second constant_second (replicate 480000 1))
      (init no_gain_config) (Some (Paths scenario_files)) = Inr scenario_files"
    by (simp add: resolve_files_def)
  have r2: "resolve_files rerun_env other_content_gain (Some (Paths scenario_files)) =
      Inr scenario_files"
    by (simp add: resolve_files_def)
  have rd: "\<forall>f\<in>set scenario_files.
      sf_read (scenario_env constant_second constant_second constant_second (replicate 480000 1)) f =
      sf_read rerun_env f"
    by (simp add: rerun_agrees(1))
  from assemble_output_deterministic [OF r1 r2 rd rerun_agrees(2,3,4,5,6,7) a b] a b
  show ?thesis by blast
qed

end
